theory Spec2Isabelle
  imports Complex_Main "HOL-Library.Word" "HOL-Library.Sublist"
begin

section \<open>JavaScript strings\<close>

text \<open>
  A JavaScript string is a sequence of UTF-16 code units, and \<open>length\<close>, \<open>startsWith\<close>,
  \<open>includes\<close> and \<open>split\<close> all work on code units. A string is therefore a list of
  16-bit words. \<open>latin1\<close> embeds a literal whose characters are all below U+0100 (one code
  unit each, of the same value); the Portuguese letters of the messages are written
  \<open>CHR 0x..\<close> inside such literals.
\<close>

type_synonym jsstring = "16 word list"

definition latin1 :: "string \<Rightarrow> jsstring" where
  "latin1 s = map (\<lambda>c. word_of_nat (of_char c)) s"

text \<open>Truthiness of a value that is a string or \<open>undefined\<close> (\<open>None\<close>): only a
  non-empty string is truthy.\<close>

fun truthy :: "jsstring option \<Rightarrow> bool" where
  "truthy None = False"
| "truthy (Some s) = (s \<noteq> [])"

fun startsWith :: "'a list \<Rightarrow> 'a list \<Rightarrow> bool" where
  "startsWith s [] = True"
| "startsWith [] (p # ps) = False"
| "startsWith (c # cs) (p # ps) = (c = p \<and> startsWith cs ps)"

fun includes_str :: "'a list \<Rightarrow> 'a list \<Rightarrow> bool" where
  "includes_str [] t = (t = [])"
| "includes_str (c # cs) t = (startsWith (c # cs) t \<or> includes_str cs t)"

text \<open>\<open>s.split(sep)\<close> for a separator of one code unit: the pieces between the
  occurrences of \<open>sep\<close>, always at least one piece.\<close>

fun split :: "'a list \<Rightarrow> 'a \<Rightarrow> 'a list list" where
  "split [] sep = [[]]"
| "split (c # cs) sep =
     (if c = sep then [] # split cs sep
      else (case split cs sep of
              [] \<Rightarrow> [[c]]
            | piece # pieces \<Rightarrow> (c # piece) # pieces))"

text \<open>\<open>pieces.join(sep)\<close>.\<close>

fun join :: "'a list list \<Rightarrow> 'a list \<Rightarrow> 'a list" where
  "join [] sep = []"
| "join [piece] sep = piece"
| "join (piece # pieces) sep = piece @ sep @ join pieces sep"

text \<open>
  \<open>toLowerCase\<close> on the letters A to Z. The case mapping of code units outside ASCII is
  not modelled: they are left as they are. (The parser has already put the ASCII letters of
  a tag name in lower case.)
\<close>

definition lowerUnit :: "16 word \<Rightarrow> 16 word" where
  "lowerUnit c = (if 0x41 \<le> c \<and> c \<le> 0x5A then c + 0x20 else c)"

definition toLowerCase :: "jsstring \<Rightarrow> jsstring" where
  "toLowerCase s = map lowerUnit s"

text \<open>Decimal rendering of a number that is an integer, as a template literal does.\<close>

fun digits :: "nat \<Rightarrow> jsstring" where
  "digits n = (if n < 10 then [0x30 + word_of_nat n]
               else digits (n div 10) @ [0x30 + word_of_nat (n mod 10)])"

declare digits.simps [simp del]

definition toString :: "int \<Rightarrow> jsstring" where
  "toString i = (if i < 0 then latin1 ''-'' @ digits (nat (- i)) else digits (nat i))"

text \<open>\<open>xs.findIndex(p)\<close>: the index of the first element satisfying \<open>p\<close>, or \<open>-1\<close>.\<close>

fun findIndexFrom :: "('a \<Rightarrow> bool) \<Rightarrow> 'a list \<Rightarrow> int \<Rightarrow> int" where
  "findIndexFrom p [] i = - 1"
| "findIndexFrom p (x # xs) i = (if p x then i else findIndexFrom p xs (i + 1))"

definition findIndex :: "('a \<Rightarrow> bool) \<Rightarrow> 'a list \<Rightarrow> int" where
  "findIndex p xs = findIndexFrom p xs 0"

section \<open>The parsed document\<close>

text \<open>
  The tree \<open>cheerio.load\<close> builds: elements with a tag name, an attribute table and
  children; text and comment nodes, which have no \<open>tagName\<close>. The document root has no tag
  name either and is represented by the list of its children. The attribute table is a list
  of names and values, read with \<open>map_of\<close>: the first entry of a name is its value.
\<close>

datatype node =
    Element jsstring "(jsstring \<times> jsstring) list" "node list"
  | Text jsstring
  | Comment jsstring

text \<open>
  An element as a selection hands it to a callback: the node itself and, for its
  \<open>parent\<close> links, the chain of its ancestors, nearest first. The chain ends at the
  document root.
\<close>

type_synonym element = "node \<times> node list"

fun elementsOf :: "node list \<Rightarrow> node \<Rightarrow> element list" where
  "elementsOf anc (Element tag as cs) =
     (Element tag as cs, anc) # concat (map (elementsOf (Element tag as cs # anc)) cs)"
| "elementsOf anc (Text d) = []"
| "elementsOf anc (Comment d) = []"

fun tagOf :: "node \<Rightarrow> jsstring option" where
  "tagOf (Element tag as cs) = Some tag"
| "tagOf (Text d) = None"
| "tagOf (Comment d) = None"

fun attribs :: "node \<Rightarrow> jsstring \<Rightarrow> jsstring option" where
  "attribs (Element tag as cs) name = map_of as name"
| "attribs (Text d) name = None"
| "attribs (Comment d) name = None"

fun textContent :: "node \<Rightarrow> jsstring" where
  "textContent (Element tag as cs) = concat (map textContent cs)"
| "textContent (Text d) = d"
| "textContent (Comment d) = []"

text \<open>
  The object \<open>$\<close>: the loaded document together with the two library operations on a
  node that the analysers call and whose code is the parsing library's: \<open>$.html(node)\<close>,
  the serialisation of a node, and \<open>$(node).css(property)\<close>, the value of a property of the
  node's inline style (\<open>None\<close> for \<open>undefined\<close>). Both are taken as they come: any
  two functions.
\<close>

record cheerio =
  root :: "node list"
  html :: "node \<Rightarrow> jsstring"
  css :: "node \<Rightarrow> jsstring \<Rightarrow> jsstring option"

text \<open>
  The selections the analysers make, in document order: all elements (\<open>$('*')\<close>), the
  elements of one tag name (\<open>$('img')\<close>), of one of several tag names
  (\<open>$('h1, h2, h3, h4, h5, h6')\<close>), and the \<open>meta\<close> elements whose \<open>name\<close> attribute has a
  given value (\<open>$('meta[name="description"]')\<close>). A tag name is compared as it stands in the
  tree, where the parser has put it in lower case.
\<close>

definition selectAll :: "cheerio \<Rightarrow> element list" where
  "selectAll dollar = concat (map (elementsOf []) (root dollar))"

definition selectTag :: "cheerio \<Rightarrow> jsstring \<Rightarrow> element list" where
  "selectTag dollar tag = filter (\<lambda>e. tagOf (fst e) = Some tag) (selectAll dollar)"

definition selectTags :: "cheerio \<Rightarrow> jsstring list \<Rightarrow> element list" where
  "selectTags dollar tags =
     filter (\<lambda>e. \<exists>tag \<in> set tags. tagOf (fst e) = Some tag) (selectAll dollar)"

definition selectMeta :: "cheerio \<Rightarrow> jsstring \<Rightarrow> element list" where
  "selectMeta dollar name =
     filter (\<lambda>e. attribs (fst e) (latin1 ''name'') = Some name)
       (selectTag dollar (latin1 ''meta''))"

text \<open>
  \<open>selection.attr(name)\<close> reads the first element of the selection and is \<open>undefined\<close>
  (\<open>None\<close>) when the selection is empty or the element has no such attribute. (For the
  boolean attributes, \<open>async\<close> and \<open>defer\<close> among them, the library returns the name of a
  present attribute in place of its value; the analysers only test those two for being
  defined.) \<open>selection.text()\<close> concatenates the text of all the elements of the selection,
  each with the text of its descendants.
\<close>

fun attr :: "element list \<Rightarrow> jsstring \<Rightarrow> jsstring option" where
  "attr [] name = None"
| "attr (e # es) name = attribs (fst e) name"

definition text_of :: "element list \<Rightarrow> jsstring" where
  "text_of sel = concat (map (\<lambda>e. textContent (fst e)) sel)"

section \<open>Findings\<close>

record finding =
  type :: jsstring
  issue :: jsstring
  solution :: jsstring
  location :: jsstring
  resource :: "jsstring option"
  hierarchy :: "jsstring option"
  size_field :: "jsstring option"
  contrastRatio :: "jsstring option"

definition push :: "finding list \<Rightarrow> finding \<Rightarrow> finding list" where
  "push report item = report @ [item]"

text \<open>The location of a serialised element: \<open>Linha\<close> and one more than the index of the
  first line that contains it.\<close>

definition lineLocation :: "jsstring list \<Rightarrow> jsstring \<Rightarrow> jsstring" where
  "lineLocation htmlLines tag =
     (let lineIndex = findIndex (\<lambda>line. includes_str line tag) htmlLines
      in latin1 ''Linha '' @ toString (lineIndex + 1))"

section \<open>Configuration\<close>

definition REPORT_FILE :: jsstring where
  "REPORT_FILE = latin1 ''site-analysis-report.txt''"

definition MAX_IMAGE_SIZE_KB :: nat where
  "MAX_IMAGE_SIZE_KB = 100"

definition SITE_URL :: jsstring where
  "SITE_URL = latin1 ''cheffycooking.netlify.app''"

section \<open>Numbers\<close>

text \<open>
  A JavaScript number: a finite double, which is a rational, an infinity or NaN. The
  analysers compare numbers with constants that a double holds exactly, divide by 1024,
  and print with \<open>toFixed(2)\<close>: the integer \<open>n\<close> nearest to \<open>100 * x\<close>, the larger one of
  two equally near, printed with two decimals. (From \<open>10^21\<close> on JavaScript prints an
  exponent instead; that is not modelled.)
\<close>

datatype number = Finite rat | PosInfinity | NegInfinity | NaN

fun number_less :: "number \<Rightarrow> rat \<Rightarrow> bool" where
  "number_less (Finite x) c = (x < c)"
| "number_less PosInfinity c = False"
| "number_less NegInfinity c = True"
| "number_less NaN c = False"

fun number_greater :: "number \<Rightarrow> rat \<Rightarrow> bool" where
  "number_greater (Finite x) c = (x > c)"
| "number_greater PosInfinity c = True"
| "number_greater NegInfinity c = False"
| "number_greater NaN c = False"

text \<open>Division by a power of two, which is exact on the doubles it is applied to here
  (they are above 102400).\<close>

fun number_div :: "number \<Rightarrow> rat \<Rightarrow> number" where
  "number_div (Finite x) c = Finite (x / c)"
| "number_div PosInfinity c = PosInfinity"
| "number_div NegInfinity c = NegInfinity"
| "number_div NaN c = NaN"

text \<open>
  The number a string of decimal digits converts to: the double nearest to the integer
  it denotes, the one with the even significand of two equally near, and \<open>Infinity\<close> from
  \<open>2^1024\<close> on. Below \<open>2^53\<close> it is the integer itself; above, the integer is rounded to
  its 53 leading bits.
\<close>

fun bitlen :: "nat \<Rightarrow> nat" where
  "bitlen n = (if n = 0 then 0 else Suc (bitlen (n div 2)))"

declare bitlen.simps [simp del]

definition toNumber :: "nat \<Rightarrow> number" where
  "toNumber n =
     (if n < 2 ^ 53 then Finite (of_nat n)
      else (let e = bitlen n - 53;
                q = n div 2 ^ e;
                r = n mod 2 ^ e;
                half = 2 ^ (e - 1);
                q' = (if r > half \<or> (r = half \<and> odd q) then q + 1 else q)
            in if q' * 2 ^ e \<ge> 2 ^ 1024 then PosInfinity else Finite (of_nat (q' * 2 ^ e))))"

definition fixed2 :: "nat \<Rightarrow> jsstring" where
  "fixed2 n = digits (n div 100) @ latin1 ''.'' @
     [0x30 + word_of_nat (n div 10 mod 10), 0x30 + word_of_nat (n mod 10)]"

fun toFixed2 :: "number \<Rightarrow> jsstring" where
  "toFixed2 (Finite x) =
     (if x < 0 then latin1 ''-'' @ fixed2 (nat \<lfloor>- x * 100 + 1 / 2\<rfloor>)
      else fixed2 (nat \<lfloor>x * 100 + 1 / 2\<rfloor>))"
| "toFixed2 PosInfinity = latin1 ''Infinity''"
| "toFixed2 NegInfinity = latin1 ''-Infinity''"
| "toFixed2 NaN = latin1 ''NaN''"

text \<open>\<open>formatSize(bytes)\<close>, where \<open>bytes\<close> is the header as received, a string of decimal
  digits: the division converts it to a number.\<close>

definition formatSize :: "nat \<Rightarrow> jsstring" where
  "formatSize bytes = toFixed2 (number_div (toNumber bytes) 1024) @ latin1 '' KB''"

section \<open>Console\<close>

definition logError :: "jsstring \<Rightarrow> jsstring list \<Rightarrow> jsstring list" where
  "logError message console = console @ [[0x274C] @ latin1 '' '' @ message]"

definition logSuccess :: "jsstring \<Rightarrow> jsstring list \<Rightarrow> jsstring list" where
  "logSuccess message console = console @ [[0x2705] @ latin1 '' '' @ message]"

section \<open>Errors\<close>

text \<open>A thrown error, with its \<open>message\<close>. A function that can throw returns
  \<open>error + 'a\<close>, the error on the left.\<close>

datatype error = Error jsstring

fun message :: "error \<Rightarrow> jsstring" where
  "message (Error m) = m"

section \<open>Element hierarchy\<close>

definition hierarchySegment :: "jsstring \<Rightarrow> (jsstring \<times> jsstring) list \<Rightarrow> jsstring" where
  "hierarchySegment tagName as =
     (let tag = toLowerCase tagName;
          id = (case map_of as (latin1 ''id'') of
                  None \<Rightarrow> []
                | Some i \<Rightarrow> if i \<noteq> [] then latin1 ''#'' @ i else []);
          classes = (case map_of as (latin1 ''class'') of
                       None \<Rightarrow> []
                     | Some c \<Rightarrow>
                         if c \<noteq> [] then latin1 ''.'' @ join (split c 0x20) (latin1 ''.'')
                         else [])
      in tag @ id @ classes)"

text \<open>
  The \<open>while\<close> loop: \<open>currentElement\<close> is the first argument, its \<open>parent\<close> chain the
  second, the array \<open>hierarchy\<close> the third. The loop stops at a node without a (non-empty)
  tag name; the parent of the outermost element is the document root, which has none.
\<close>

fun hierarchyLoop :: "node \<Rightarrow> node list \<Rightarrow> jsstring list \<Rightarrow> jsstring list" where
  "hierarchyLoop (Element tagName as cs) anc path =
     (if tagName = [] then path
      else (case anc of
              [] \<Rightarrow> hierarchySegment tagName as # path
            | parent # grandparents \<Rightarrow>
                hierarchyLoop parent grandparents (hierarchySegment tagName as # path)))"
| "hierarchyLoop (Text d) anc path = path"
| "hierarchyLoop (Comment d) anc path = path"

definition getElementHierarchy :: "element \<Rightarrow> jsstring" where
  "getElementHierarchy element =
     join (hierarchyLoop (fst element) (snd element) []) (latin1 '' > '')"

section \<open>SEO\<close>

definition seoFinding :: "jsstring \<Rightarrow> jsstring \<Rightarrow> jsstring \<Rightarrow> finding" where
  "seoFinding i s l =
     \<lparr> type = latin1 ''SEO'', issue = i, solution = s, location = l,
       resource = None, hierarchy = None, size_field = None, contrastRatio = None \<rparr>"

definition issueTitleMissing :: jsstring where
  "issueTitleMissing = latin1 (''T'' @ [CHR 0xED] @ ''tulo ausente'')"

definition issueTitleLong :: jsstring where
  "issueTitleLong = latin1 (''T'' @ [CHR 0xED] @ ''tulo muito longo'')"

definition titleMissingFinding :: finding where
  "titleMissingFinding =
     seoFinding issueTitleMissing
       (latin1 ''Adicione uma tag <title> no <head> do HTML.'')
       (latin1 ''Head do documento'')"

definition titleLongFinding :: finding where
  "titleLongFinding =
     seoFinding issueTitleLong
       (latin1 (''Reduza o t'' @ [CHR 0xED] @ ''tulo para menos de 60 caracteres.''))
       (latin1 ''Head do documento'')"

definition checkTitle :: "cheerio \<Rightarrow> finding list \<Rightarrow> finding list" where
  "checkTitle dollar report =
     (let title = text_of (selectTag dollar (latin1 ''title''))
      in if title = [] then push report titleMissingFinding
         else if length title > 60 then push report titleLongFinding
         else report)"

definition descriptionMissingFinding :: finding where
  "descriptionMissingFinding =
     seoFinding (latin1 ''Meta description ausente'')
       (latin1 ''Adicione uma meta description no <head> do HTML.'')
       (latin1 ''Head do documento'')"

definition descriptionLongFinding :: finding where
  "descriptionLongFinding =
     seoFinding (latin1 ''Meta description muito longa'')
       (latin1 ''Reduza a meta description para menos de 160 caracteres.'')
       (latin1 ''Head do documento'')"

definition checkDescription :: "cheerio \<Rightarrow> finding list \<Rightarrow> finding list" where
  "checkDescription dollar report =
     (let description = attr (selectMeta dollar (latin1 ''description'')) (latin1 ''content'')
      in case description of
           None \<Rightarrow> push report descriptionMissingFinding
         | Some d \<Rightarrow>
             if d = [] then push report descriptionMissingFinding
             else if length d > 160 then push report descriptionLongFinding
             else report)"

definition headingsMissingFinding :: finding where
  "headingsMissingFinding =
     seoFinding (latin1 ''Nenhum heading encontrado'')
       (latin1 (''Adicione headings (h1, h2, etc.) para estruturar o conte'' @ [CHR 0xFA] @ ''do.''))
       (latin1 ''Corpo do documento'')"

definition checkHeadings :: "cheerio \<Rightarrow> finding list \<Rightarrow> finding list" where
  "checkHeadings dollar report =
     (let headings = selectTags dollar
            [latin1 ''h1'', latin1 ''h2'', latin1 ''h3'', latin1 ''h4'', latin1 ''h5'', latin1 ''h6'']
      in if length headings = 0 then push report headingsMissingFinding else report)"

definition analyzeSEO :: "cheerio \<Rightarrow> jsstring list \<Rightarrow> finding list" where
  "analyzeSEO dollar htmlLines =
     checkHeadings dollar (checkDescription dollar (checkTitle dollar []))"

section \<open>Performance\<close>

definition issueBlockingScript :: jsstring where
  "issueBlockingScript = latin1 ''Script bloqueante''"

definition issueLargeImage :: jsstring where
  "issueLargeImage = latin1 ''Imagem muito grande''"

definition scriptFinding ::
  "cheerio \<Rightarrow> jsstring list \<Rightarrow> element \<Rightarrow> jsstring option \<Rightarrow> finding" where
  \<open>scriptFinding dollar htmlLines script src =
     (let scriptTag = html dollar (fst script)
      in \<lparr> type = latin1 ''Performance'',
           issue = issueBlockingScript,
           solution = latin1 ''Adicione os atributos "async" ou "defer" ao script.'',
           location = lineLocation htmlLines scriptTag,
           resource = src,
           hierarchy = None, size_field = None, contrastRatio = None \<rparr>)\<close>

definition eachScript :: "cheerio \<Rightarrow> jsstring list \<Rightarrow> finding list \<Rightarrow> element \<Rightarrow> finding list" where
  "eachScript dollar htmlLines report script =
     (let src = attr [script] (latin1 ''src'');
          isAsync = (attr [script] (latin1 ''async'') \<noteq> None);
          isDefer = (attr [script] (latin1 ''defer'') \<noteq> None)
      in if truthy src \<and> \<not> isAsync \<and> \<not> isDefer then
           push report (scriptFinding dollar htmlLines script src)
         else report)"

text \<open>
  The callback of the loop over the images is an \<open>async\<close> function, and the loop does not
  wait for what it returns. A call of it runs up to its first \<open>await\<close>, where the request
  \<open>axios.head(src)\<close> has been issued, and is suspended there: what it leaves behind is a
  scheduled check, the image and its \<open>src\<close>. The rest of the callback runs when the response
  arrives, which is after \<open>analyzePerformance\<close> has returned.
\<close>

type_synonym imageCheck = "element \<times> jsstring"

definition eachImageStart :: "imageCheck list \<Rightarrow> element \<Rightarrow> imageCheck list" where
  "eachImageStart scheduled img =
     (case attr [img] (latin1 ''src'') of
        None \<Rightarrow> scheduled
      | Some src \<Rightarrow>
          if src \<noteq> [] \<and> \<not> startsWith src (latin1 ''data:'') then scheduled @ [(img, src)]
          else scheduled)"

text \<open>The response to a HEAD request: the request fails, or it resolves with headers, of
  which \<open>content-length\<close> is read: a string of decimal digits, given here by the integer it
  denotes, or absent (\<open>None\<close>). The comparison with the limit converts it to a number.\<close>

datatype headResponse = Rejected | Resolved "nat option"

text \<open>The rest of the callback, from the response on. It works on the \<open>report\<close> array of the
  call of \<open>analyzePerformance\<close> that scheduled it and on the console.\<close>

definition imageFinding ::
  "cheerio \<Rightarrow> jsstring list \<Rightarrow> element \<Rightarrow> jsstring \<Rightarrow> nat \<Rightarrow> finding" where
  "imageFinding dollar htmlLines img src contentLength =
     (let imgTag = html dollar (fst img)
      in \<lparr> type = latin1 ''Performance'',
           issue = issueLargeImage,
           solution = latin1 ''Reduza o tamanho da imagem para menos de '' @
             toString (int MAX_IMAGE_SIZE_KB) @ latin1 '' KB.'',
           location = lineLocation htmlLines imgTag,
           resource = Some src,
           hierarchy = None,
           size_field = Some (formatSize contentLength),
           contrastRatio = None \<rparr>)"

definition eachImageResume ::
  "cheerio \<Rightarrow> jsstring list \<Rightarrow> imageCheck \<Rightarrow> headResponse \<Rightarrow>
   finding list \<times> jsstring list \<Rightarrow> finding list \<times> jsstring list" where
  "eachImageResume dollar htmlLines check response state =
     (let img = fst check; src = snd check; report = fst state; console = snd state
      in case response of
           Rejected \<Rightarrow>
             (report, logError (latin1 ''Erro ao verificar imagem: '' @ src) console)
         | Resolved None \<Rightarrow> (report, console)
         | Resolved (Some contentLength) \<Rightarrow>
             if number_greater (toNumber contentLength) (of_nat (MAX_IMAGE_SIZE_KB * 1024)) then
               (push report (imageFinding dollar htmlLines img src contentLength), console)
             else (report, console))"

text \<open>The value \<open>analyzePerformance\<close> returns, and the checks it has scheduled.\<close>

definition analyzePerformance :: "cheerio \<Rightarrow> jsstring list \<Rightarrow> finding list \<times> imageCheck list" where
  "analyzePerformance dollar htmlLines =
     (let report = foldl (eachScript dollar htmlLines) [] (selectTag dollar (latin1 ''script''));
          scheduled = foldl eachImageStart [] (selectTag dollar (latin1 ''img''))
      in (report, scheduled))"

section \<open>Accessibility\<close>

definition issueMissingAlt :: jsstring where
  "issueMissingAlt = latin1 ''Imagem sem atributo ALT''"

definition issueContrast :: jsstring where
  "issueContrast = latin1 ''Contraste de cores insuficiente''"

definition altFinding :: "cheerio \<Rightarrow> jsstring list \<Rightarrow> element \<Rightarrow> finding" where
  \<open>altFinding dollar htmlLines img =
     (let imgTag = html dollar (fst img);
          path = getElementHierarchy img
      in \<lparr> type = latin1 ''Acessibilidade'',
           issue = issueMissingAlt,
           solution = latin1 (''Adicione um atributo "alt" descritivo '' @ [CHR 0xE0] @ '' imagem.''),
           location = lineLocation htmlLines imgTag,
           resource = attr [img] (latin1 ''src''),
           hierarchy = Some path,
           size_field = None, contrastRatio = None \<rparr>)\<close>

definition eachImgAlt :: "cheerio \<Rightarrow> jsstring list \<Rightarrow> finding list \<Rightarrow> element \<Rightarrow> finding list" where
  "eachImgAlt dollar htmlLines report img =
     (let alt = attr [img] (latin1 ''alt'')
      in if \<not> truthy alt then push report (altFinding dollar htmlLines img) else report)"

definition contrastFinding :: "cheerio \<Rightarrow> jsstring list \<Rightarrow> element \<Rightarrow> number \<Rightarrow> finding" where
  "contrastFinding dollar htmlLines element ratio =
     (let elementTag = html dollar (fst element)
      in \<lparr> type = latin1 ''Acessibilidade'',
           issue = issueContrast,
           solution = latin1 ''Aumente o contraste entre o texto e o fundo.'',
           location = lineLocation htmlLines elementTag,
           resource = Some elementTag,
           hierarchy = None, size_field = None,
           contrastRatio = Some (toFixed2 ratio) \<rparr>)"

text \<open>
  \<open>contrast\<close> is the binding of \<open>const { contrast } = require('color-contrast')\<close>: the
  property \<open>contrast\<close> of what the colour package exports, a function from two colours to
  a number, or \<open>undefined\<close> (\<open>None\<close>) when the export has no such property. The package
  exports one bare function, which has no property \<open>contrast\<close>: with it the binding is
  \<open>undefined\<close>, and the call \<open>contrast(bgColor, textColor)\<close> throws a \<open>TypeError\<close>.
\<close>

definition eachContrast ::
  "(jsstring \<Rightarrow> jsstring \<Rightarrow> number) option \<Rightarrow> cheerio \<Rightarrow> jsstring list \<Rightarrow>
   finding list \<Rightarrow> element \<Rightarrow> error + finding list" where
  "eachContrast contrast dollar htmlLines report element =
     (case (css dollar (fst element) (latin1 ''background-color''),
            css dollar (fst element) (latin1 ''color'')) of
        (Some bgColor, Some textColor) \<Rightarrow>
          if bgColor \<noteq> [] \<and> textColor \<noteq> [] then
            (case contrast of
               None \<Rightarrow> Inl (Error (latin1 ''contrast is not a function''))
             | Some f \<Rightarrow>
                 (let ratio = f bgColor textColor
                  in if number_less ratio (9 / 2) then
                       Inr (push report (contrastFinding dollar htmlLines element ratio))
                     else Inr report))
          else Inr report
      | _ \<Rightarrow> Inr report)"

text \<open>\<open>selection.each(callback)\<close> with a callback that can throw: the loop ends at the first
  element on which it does, and the error goes to the caller.\<close>

fun each :: "('r \<Rightarrow> 'e \<Rightarrow> error + 'r) \<Rightarrow> 'r \<Rightarrow> 'e list \<Rightarrow> error + 'r" where
  "each callback r [] = Inr r"
| "each callback r (x # xs) =
     (case callback r x of
        Inl e \<Rightarrow> Inl e
      | Inr r' \<Rightarrow> each callback r' xs)"

text \<open>The promise of \<open>analyzeAccessibility\<close>: rejected with the error thrown, or resolved
  with the report.\<close>

definition analyzeAccessibility ::
  "(jsstring \<Rightarrow> jsstring \<Rightarrow> number) option \<Rightarrow> cheerio \<Rightarrow> jsstring list \<Rightarrow>
   error + finding list" where
  "analyzeAccessibility contrast dollar htmlLines =
     (let report = foldl (eachImgAlt dollar htmlLines) [] (selectTag dollar (latin1 ''img''))
      in each (eachContrast contrast dollar htmlLines) report (selectAll dollar))"

section \<open>Broken links\<close>

definition brokenLinkFinding :: "cheerio \<Rightarrow> jsstring list \<Rightarrow> element \<Rightarrow> jsstring \<Rightarrow> finding" where
  "brokenLinkFinding dollar htmlLines link href =
     (let linkTag = html dollar (fst link)
      in \<lparr> type = latin1 ''Link'',
           issue = latin1 ''Link quebrado ou vazio'',
           solution = latin1 ''Corrija ou remova o link.'',
           location = lineLocation htmlLines linkTag,
           resource = Some href,
           hierarchy = None, size_field = None, contrastRatio = None \<rparr>)"

definition eachLink :: "cheerio \<Rightarrow> jsstring list \<Rightarrow> finding list \<Rightarrow> element \<Rightarrow> finding list" where
  "eachLink dollar htmlLines report link =
     (case attr [link] (latin1 ''href'') of
        None \<Rightarrow> report
      | Some href \<Rightarrow>
          if href \<noteq> [] \<and> (startsWith href (latin1 ''#'') \<or> href = []) then
            push report (brokenLinkFinding dollar htmlLines link href)
          else report)"

definition analyzeBrokenLinks :: "cheerio \<Rightarrow> jsstring list \<Rightarrow> finding list" where
  "analyzeBrokenLinks dollar htmlLines =
     foldl (eachLink dollar htmlLines) [] (selectTag dollar (latin1 ''a''))"

section \<open>Security\<close>

definition securityFinding :: finding where
  "securityFinding =
     \<lparr> type = latin1 (''Seguran'' @ [CHR 0xE7] @ ''a''),
       issue = latin1 (''Site n'' @ [CHR 0xE3] @ ''o utiliza HTTPS''),
       solution = latin1 ''Configure o site para usar HTTPS.'',
       location = latin1 ''URL do site'',
       resource = None, hierarchy = None, size_field = None, contrastRatio = None \<rparr>"

definition analyzeSecurity :: "cheerio \<Rightarrow> jsstring list \<Rightarrow> finding list" where
  "analyzeSecurity dollar htmlLines =
     (let hasHttps = startsWith SITE_URL (latin1 ''https://'')
      in if \<not> hasHttps then push [] securityFinding else [])"

section \<open>Mobile\<close>

definition mobileFinding :: finding where
  "mobileFinding =
     \<lparr> type = latin1 ''Mobile'',
       issue = latin1 (''Viewport n'' @ [CHR 0xE3] @ ''o configurado''),
       solution = latin1 ''Adicione uma meta tag viewport no <head> do HTML.'',
       location = latin1 ''Head do documento'',
       resource = None, hierarchy = None, size_field = None, contrastRatio = None \<rparr>"

definition analyzeMobile :: "cheerio \<Rightarrow> jsstring list \<Rightarrow> finding list" where
  "analyzeMobile dollar htmlLines =
     (let viewport = attr (selectMeta dollar (latin1 ''viewport'')) (latin1 ''content'')
      in if \<not> truthy viewport then push [] mobileFinding else [])"

section \<open>Report and orchestration\<close>

text \<open>
  What a run can observe and change: the lines written to the console, the files, and
  the image checks that have been scheduled and not yet resumed.
\<close>

type_synonym files = "jsstring \<Rightarrow> jsstring option"

record world =
  console :: "jsstring list"
  files :: files
  scheduled :: "imageCheck list"

text \<open>
  The \<open>data\<close> of a response: the body as a string, or what the HTTP client has made of a
  body that is JSON: \<open>null\<close>, or an object, an array, a number or a boolean. Only a string
  has a method \<open>split\<close>; on the others \<open>data.split('\\n')\<close> throws a \<open>TypeError\<close>.
\<close>

datatype body = TextBody jsstring | NullBody | ParsedBody

fun splitLines :: "body \<Rightarrow> error + jsstring list" where
  "splitLines (TextBody text) = Inr (split text 0x0A)"
| "splitLines NullBody =
     Inl (Error (latin1 (''Cannot read properties of null (reading '' @ [CHR 0x27] @ ''split'' @
       [CHR 0x27] @ '')'')))"
| "splitLines ParsedBody = Inl (Error (latin1 ''data.split is not a function''))"

text \<open>
  The collaborators of a run whose code is outside this program: the HTTP client's GET,
  the parser, the binding \<open>contrast\<close> of the colour package, and the file system's write,
  which fails (with the files as it left them) or succeeds.
\<close>

record externals =
  axios_get :: "jsstring \<Rightarrow> error + body"
  cheerio_load :: "body \<Rightarrow> error + cheerio"
  contrast :: "(jsstring \<Rightarrow> jsstring \<Rightarrow> number) option"
  writeFileSync :: "jsstring \<Rightarrow> jsstring \<Rightarrow> files \<Rightarrow> error option \<times> files"

definition optionalLine :: "jsstring \<Rightarrow> jsstring option \<Rightarrow> jsstring" where
  "optionalLine label field =
     (case field of
        None \<Rightarrow> []
      | Some v \<Rightarrow> if v \<noteq> [] then label @ v @ [0x0A] else [])"

definition reportItem :: "finding \<Rightarrow> int \<Rightarrow> jsstring" where
  "reportItem item index =
     [0xD83D, 0xDCCC] @ latin1 '' Problema '' @ toString (index + 1) @ latin1 '':'' @ [0x0A] @
     latin1 ''   - Tipo: '' @ type item @ [0x0A] @
     latin1 ''   - Problema: '' @ issue item @ [0x0A] @
     latin1 (''   - Solu'' @ [CHR 0xE7, CHR 0xE3] @ ''o: '') @ solution item @ [0x0A] @
     latin1 (''   - Localiza'' @ [CHR 0xE7, CHR 0xE3] @ ''o: '') @ location item @ [0x0A] @
     optionalLine (latin1 ''   - Recurso: '') (resource item) @
     optionalLine (latin1 ''   - Hierarquia: '') (hierarchy item) @
     optionalLine (latin1 ''   - Tamanho: '') (size_field item) @
     optionalLine (latin1 ''   - Contraste: '') (contrastRatio item) @
     [0x0A]"

fun reportItems :: "finding list \<Rightarrow> int \<Rightarrow> jsstring \<Rightarrow> jsstring" where
  "reportItems [] index reportText = reportText"
| "reportItems (item # items) index reportText =
     reportItems items (index + 1) (reportText @ reportItem item index)"

definition reportHeader :: jsstring where
  "reportHeader =
     [0xD83D, 0xDD0D] @
     latin1 ('' Relat'' @ [CHR 0xF3] @ ''rio de An'' @ [CHR 0xE1] @ ''lise do Site'') @
     [0x0A, 0x0A]"

text \<open>\<open>generateReport\<close> returns the world after it, or the error the write threw together
  with the world at that moment.\<close>

definition generateReport :: "externals \<Rightarrow> finding list \<Rightarrow> world \<Rightarrow> (error \<times> world) + world" where
  "generateReport ext report w =
     (let reportText = reportItems report 0 reportHeader
      in case writeFileSync ext REPORT_FILE reportText (files w) of
           (Some e, fs) \<Rightarrow> Inl (e, w\<lparr>files := fs\<rparr>)
         | (None, fs) \<Rightarrow>
             Inr (w\<lparr>files := fs,
                    console := logSuccess (latin1 (''Relat'' @ [CHR 0xF3] @ ''rio salvo em '') @ REPORT_FILE)
                                 (console w)\<rparr>))"

definition catchError :: "error \<Rightarrow> world \<Rightarrow> world" where
  "catchError e w =
     w\<lparr>console := logError (latin1 ''Erro ao analisar o site: '' @ message e) (console w)\<rparr>"

text \<open>
  \<open>analyzeSite\<close>, up to the end of its \<open>try\<close> statement. Whatever is thrown inside goes
  to the \<open>catch\<close> clause: a failed GET, a failed parse, \<open>data.split\<close> on a body that is not
  a string, the error of \<open>analyzeAccessibility\<close>, a failed write. The image checks that
  \<open>analyzePerformance\<close> has scheduled are still waiting for their responses then: none of
  the steps in between gives way to one. They are left in the world as scheduled.
\<close>

definition analyzeSite :: "externals \<Rightarrow> jsstring \<Rightarrow> world \<Rightarrow> world" where
  "analyzeSite ext url w =
     (case axios_get ext url of
        Inl e \<Rightarrow> catchError e w
      | Inr data \<Rightarrow>
          (case cheerio_load ext data of
             Inl e \<Rightarrow> catchError e w
           | Inr dollar \<Rightarrow>
               (case splitLines data of
                  Inl e \<Rightarrow> catchError e w
                | Inr htmlLines \<Rightarrow>
                    (let seoReport = analyzeSEO dollar htmlLines;
                         performance = analyzePerformance dollar htmlLines;
                         performanceReport = fst performance;
                         w1 = w\<lparr>scheduled := scheduled w @ snd performance\<rparr>
                     in case analyzeAccessibility (contrast ext) dollar htmlLines of
                          Inl e \<Rightarrow> catchError e w1
                        | Inr accessibilityReport \<Rightarrow>
                            (let brokenLinksReport = analyzeBrokenLinks dollar htmlLines;
                                 securityReport = analyzeSecurity dollar htmlLines;
                                 mobileReport = analyzeMobile dollar htmlLines;
                                 fullReport = seoReport @ performanceReport @
                                   accessibilityReport @ brokenLinksReport @ securityReport @
                                   mobileReport
                             in case generateReport ext fullReport w1 of
                                  Inl (e, w2) \<Rightarrow> catchError e w2
                                | Inr w2 \<Rightarrow> w2)))))"


section \<open>Examples\<close>

text \<open>
  A serialiser, a style table and a contrast function to run the analysers on, and a few
  small documents. The style table reads the \<open>style\<close> attribute of an element, a list of
  declarations \<open>property:value\<close> separated by \<open>;\<close> and written without spaces.
\<close>

fun sampleAttrs :: "(jsstring \<times> jsstring) list \<Rightarrow> jsstring" where
  "sampleAttrs [] = []"
| "sampleAttrs ((name, v) # as) = latin1 '' '' @ name @ latin1 (''='' @ [CHR 0x22]) @ v @ latin1 [CHR 0x22] @ sampleAttrs as"

fun sampleHtml :: "node \<Rightarrow> jsstring" where
  "sampleHtml (Element tag as cs) =
     latin1 ''<'' @ tag @ sampleAttrs as @ latin1 ''>'' @ concat (map sampleHtml cs) @
     latin1 ''</'' @ tag @ latin1 ''>''"
| "sampleHtml (Text d) = d"
| "sampleHtml (Comment d) = latin1 ''<!--'' @ d @ latin1 ''-->''"

fun sampleDeclarations :: "jsstring list \<Rightarrow> (jsstring \<times> jsstring) list" where
  "sampleDeclarations [] = []"
| "sampleDeclarations (d # ds) =
     (case split d 0x3A of
        [property, v] \<Rightarrow> (property, v) # sampleDeclarations ds
      | _ \<Rightarrow> sampleDeclarations ds)"

definition sampleCss :: "node \<Rightarrow> jsstring \<Rightarrow> jsstring option" where
  "sampleCss n property =
     (case attribs n (latin1 ''style'') of
        None \<Rightarrow> None
      | Some style \<Rightarrow> map_of (sampleDeclarations (split style 0x3B)) property)"

definition sampleContrast :: "jsstring \<Rightarrow> jsstring \<Rightarrow> number" where
  "sampleContrast bgColor textColor =
     (if textColor = latin1 ''gray'' then Finite (9 / 2)
      else if textColor = latin1 ''silver'' then Finite (449 / 100)
      else Finite 21)"

definition scriptA :: node where
  "scriptA = Element (latin1 ''script'') [(latin1 ''src'', latin1 ''a.js'')] []"

definition scriptB :: node where
  "scriptB = Element (latin1 ''script'') [(latin1 ''src'', latin1 ''b.js''), (latin1 ''defer'', [])] []"

definition scriptInline :: node where
  "scriptInline = Element (latin1 ''script'') [] [Text (latin1 ''x'')]"

definition imgA :: node where
  "imgA = Element (latin1 ''img'') [(latin1 ''src'', latin1 ''a.png'')] []"

definition imgB :: node where
  "imgB = Element (latin1 ''img'') [(latin1 ''src'', latin1 ''data:x''), (latin1 ''alt'', latin1 ''logo'')] []"

definition imgC :: node where
  "imgC = Element (latin1 ''img'') [(latin1 ''src'', latin1 ''b.png''), (latin1 ''alt'', [])] []"

definition parGray :: node where
  "parGray = Element (latin1 ''p'')
     [(latin1 ''style'', latin1 ''color:gray;background-color:white'')]
     [Text (latin1 ''t'')]"

definition parSilver :: node where
  "parSilver = Element (latin1 ''p'')
     [(latin1 ''style'', latin1 ''color:silver;background-color:white'')]
     [Text (latin1 ''u'')]"

definition linkTop :: node where
  "linkTop = Element (latin1 ''a'') [(latin1 ''href'', latin1 ''#top'')] [Text (latin1 ''up'')]"

definition linkExt :: node where
  "linkExt = Element (latin1 ''a'') [(latin1 ''href'', latin1 ''https://example.org/'')]
     [Text (latin1 ''ex'')]"

definition sampleHead :: node where
  "sampleHead = Element (latin1 ''head'') [] [scriptA, scriptB, scriptInline]"

definition sampleBody :: node where
  "sampleBody = Element (latin1 ''body'') [(latin1 ''class'', latin1 ''home dark'')]
     [imgA, imgB, imgC, parGray, parSilver, linkTop, linkExt]"

definition sampleRoot :: node where
  "sampleRoot = Element (latin1 ''html'') [] [sampleHead, sampleBody]"

definition samplePage :: cheerio where
  "samplePage = \<lparr> root = [sampleRoot], html = sampleHtml, css = sampleCss \<rparr>"

definition sampleLines :: "jsstring list" where
  "sampleLines = [latin1 ''<!DOCTYPE html>'', latin1 ''<head>'' @ sampleHtml scriptA, sampleHtml imgA]"

definition emptyHrefLink :: node where
  "emptyHrefLink = Element (latin1 ''a'') [(latin1 ''href'', [])] [Text (latin1 ''x'')]"

definition emptyHrefPage :: cheerio where
  "emptyHrefPage = \<lparr> root = [emptyHrefLink], html = sampleHtml, css = sampleCss \<rparr>"

definition emptySrcScript :: node where
  "emptySrcScript = Element (latin1 ''script'') [(latin1 ''src'', [])] []"

definition emptySrcPage :: cheerio where
  "emptySrcPage = \<lparr> root = [emptySrcScript], html = sampleHtml, css = sampleCss \<rparr>"

definition colouredPage :: cheerio where
  "colouredPage = \<lparr> root = [parSilver], html = sampleHtml, css = sampleCss \<rparr>"

definition plainPage :: cheerio where
  "plainPage = \<lparr> root = [imgA, linkTop], html = sampleHtml, css = sampleCss \<rparr>"

definition scriptC :: node where
  "scriptC = Element (latin1 ''script'') [(latin1 ''src'', latin1 ''c.js'')] []"

definition twoScriptsPage :: cheerio where
  "twoScriptsPage = \<lparr> root = [scriptA, scriptC], html = sampleHtml, css = sampleCss \<rparr>"

definition twoScriptsLines :: "jsstring list" where
  "twoScriptsLines = [sampleHtml scriptC, sampleHtml scriptA]"

definition titlePage :: "nat \<Rightarrow> cheerio" where
  "titlePage n =
     \<lparr> root = [Element (latin1 ''title'') [] [Text (replicate n 0x41)]],
       html = sampleHtml, css = sampleCss \<rparr>"

definition emptyWorld :: world where
  "emptyWorld = \<lparr> console = [], files = Map.empty, scheduled = [] \<rparr>"

definition offline :: externals where
  "offline =
     \<lparr> axios_get = (\<lambda>url. Inl (Error (latin1 ''getaddrinfo ENOTFOUND''))),
       cheerio_load = (\<lambda>data. Inr (titlePage 0)),
       contrast = None,
       writeFileSync = (\<lambda>path content fs. (None, fs(path \<mapsto> content))) \<rparr>"

definition unparsable :: externals where
  "unparsable =
     \<lparr> axios_get = (\<lambda>url. Inr (TextBody (latin1 ''<html>''))),
       cheerio_load = (\<lambda>data. Inl (Error (latin1 ''not a document''))),
       contrast = None,
       writeFileSync = (\<lambda>path content fs. (None, fs(path \<mapsto> content))) \<rparr>"

section \<open>Facts about strings\<close>

lemma unit_inj: "((word_of_nat (of_char c) :: 16 word) = word_of_nat (of_char d)) = (c = d)"
proof
  assume h: "(word_of_nat (of_char c) :: 16 word) = word_of_nat (of_char d)"
  have a: "unat (word_of_nat (of_char c) :: 16 word) = of_char c" for c
  proof -
    have "(of_char c :: nat) < 2 ^ 16"
      by (rule less_trans [OF nat_of_char_less_256]) simp
    then show ?thesis by (simp add: unat_of_nat)
  qed
  from h have "unat (word_of_nat (of_char c) :: 16 word) = unat (word_of_nat (of_char d) :: 16 word)"
    by simp
  then have "(of_char c :: nat) = of_char d" by (simp only: a)
  then show "c = d" by simp
qed simp

lemma inj_unit: "inj (\<lambda>c. word_of_nat (of_char c) :: 16 word)"
  by (simp add: inj_on_def unit_inj)

lemma latin1_inj: "(latin1 s = latin1 t) = (s = t)"
  unfolding latin1_def by (rule inj_map_eq_map) (simp add: inj_on_def unit_inj)

lemma latin1_Nil: "(latin1 s = []) = (s = [])"
  by (simp add: latin1_def)

lemma latin1_append: "latin1 (s @ t) = latin1 s @ latin1 t"
  by (simp add: latin1_def)

lemma latin1_app: "latin1 s @ latin1 t = latin1 (s @ t)" "latin1 s @ latin1 t @ u = latin1 (s @ t) @ u"
  by (simp_all add: latin1_def)

lemma startsWith_prefix: "startsWith s p = prefix p s"
  by (induction s p rule: startsWith.induct) auto

lemma startsWith_map: "inj f \<Longrightarrow> startsWith (map f s) (map f t) = startsWith s t"
  by (induction s t rule: startsWith.induct) (auto simp add: inj_eq)

lemma startsWith_latin1: "startsWith (latin1 s) (latin1 t) = startsWith s t"
  unfolding latin1_def by (rule startsWith_map [OF inj_unit])

lemma includes_str_sublist: "includes_str s t = sublist t s"
proof (induction s)
  case Nil
  show ?case by simp
next
  case (Cons c cs)
  show ?case by (simp add: Cons.IH startsWith_prefix sublist_Cons_right)
qed

lemma includes_str_map: "inj f \<Longrightarrow> includes_str (map f s) (map f t) = includes_str s t"
proof (induction s)
  case Nil
  then show ?case by simp
next
  case (Cons c cs)
  from Cons.prems have "startsWith (map f (c # cs)) (map f t) = startsWith (c # cs) t"
    by (rule startsWith_map)
  with Cons show ?case by simp
qed

lemma includes_str_latin1: "includes_str (latin1 s) (latin1 t) = includes_str s t"
  unfolding latin1_def by (rule includes_str_map [OF inj_unit])

lemma truthy_iff: "truthy x = (\<exists>s. x = Some s \<and> s \<noteq> [])"
  by (cases x) simp_all

lemma not_truthy_iff: "(\<not> truthy x) = (x = None \<or> x = Some [])"
  by (cases x) simp_all

lemma toString_0: "toString 0 = latin1 ''0''"
  by (simp add: toString_def latin1_def digits.simps)

section \<open>Numbers of bytes\<close>

lemma bitlen_upper: "n < 2 ^ bitlen n"
proof (induction n rule: bitlen.induct)
  case (1 n)
  show ?case
  proof (cases "n = 0")
    case True
    then show ?thesis by (simp add: bitlen.simps)
  next
    case False
    from "1.IH" [OF False] have "n div 2 < 2 ^ bitlen (n div 2)" .
    then have "n < 2 * 2 ^ bitlen (n div 2)" by linarith
    with False show ?thesis by (simp add: bitlen.simps [of n])
  qed
qed

lemma bitlen_lower: "0 < n \<Longrightarrow> 2 ^ (bitlen n - 1) \<le> n"
proof (induction n rule: bitlen.induct)
  case (1 n)
  from "1.prems" have n0: "n \<noteq> 0" by simp
  show ?case
  proof (cases "n div 2 = 0")
    case True
    then have "bitlen (n div 2) = 0" by (simp add: bitlen.simps)
    with n0 have "bitlen n = 1" by (simp add: bitlen.simps [of n])
    with "1.prems" show ?thesis by simp
  next
    case False
    then have pos: "0 < n div 2" by simp
    from "1.IH" [OF n0 pos] have ih: "2 ^ (bitlen (n div 2) - 1) \<le> n div 2" .
    from False have "bitlen (n div 2) \<noteq> 0" by (simp add: bitlen.simps [of "n div 2"])
    then obtain k where k: "bitlen (n div 2) = Suc k" by (cases "bitlen (n div 2)") auto
    from n0 have bn: "bitlen n = Suc (Suc k)" by (simp add: bitlen.simps [of n] k)
    from ih k have "2 ^ k \<le> n div 2" by simp
    then have "2 * 2 ^ k \<le> n" by linarith
    with bn show ?thesis by simp
  qed
qed

lemma toNumber_small: "n < 2 ^ 53 \<Longrightarrow> toNumber n = Finite (of_nat n)"
  by (simp add: toNumber_def)

lemma toNumber_large:
  assumes "\<not> n < 2 ^ 53"
  shows "toNumber n = PosInfinity \<or> (\<exists>m. toNumber n = Finite (of_nat m) \<and> 2 ^ 53 \<le> m)"
proof -
  define e where "e = bitlen n - 53"
  define q where "q = n div 2 ^ e"
  define q' where "q' = (if n mod 2 ^ e > 2 ^ (e - 1) \<or> (n mod 2 ^ e = 2 ^ (e - 1) \<and> odd q)
    then q + 1 else q)"
  from assms have n: "(2::nat) ^ 53 \<le> n" by simp
  then have pos: "0 < n" by (simp add: order.strict_trans2 [of 0 "2 ^ 53" n])
  have "n < 2 ^ bitlen n" by (rule bitlen_upper)
  with n have "(2::nat) ^ 53 < 2 ^ bitlen n" by linarith
  then have b: "53 < bitlen n" by (simp only: power_strict_increasing_iff [of 2] one_less_numeral_iff semiring_norm)
  then have bl: "bitlen n - 1 = 52 + e" by (simp add: e_def)
  from bitlen_lower [OF pos] bl have "2 ^ 52 * 2 ^ e \<le> n" by (simp add: power_add)
  then have "2 ^ 52 \<le> q" unfolding q_def
    by (simp add: less_eq_div_iff_mult_less_eq)
  moreover have "q \<le> q'" by (simp add: q'_def)
  ultimately have q52: "2 ^ 52 \<le> q'" by linarith
  from b have "1 \<le> e" by (simp add: e_def)
  then have "(2::nat) ^ 1 \<le> 2 ^ e" by (rule power_increasing) simp
  then have "(2::nat) \<le> 2 ^ e" by simp
  with q52 have "2 ^ 52 * 2 \<le> q' * 2 ^ e" by (rule mult_le_mono)
  then have big: "2 ^ 53 \<le> q' * 2 ^ e" by simp
  have eq: "toNumber n =
      (if q' * 2 ^ e \<ge> 2 ^ 1024 then PosInfinity else Finite (of_nat (q' * 2 ^ e)))"
    unfolding toNumber_def Let_def e_def q_def q'_def using assms by (simp only: if_False)
  show ?thesis
  proof (cases "q' * 2 ^ e \<ge> 2 ^ 1024")
    case True
    with eq have "toNumber n = PosInfinity" by (simp only: if_True)
    then show ?thesis by (rule disjI1)
  next
    case False
    with eq have "toNumber n = Finite (of_nat (q' * 2 ^ e))" by (simp only: if_False)
    with big show ?thesis by blast
  qed
qed

lemma number_greater_toNumber:
  assumes "c < 2 ^ 53"
  shows "number_greater (toNumber n) (of_nat c) = (c < n)"
proof (cases "n < 2 ^ 53")
  case True
  then show ?thesis by (simp add: toNumber_small)
next
  case False
  with assms have cn: "c < n" by linarith
  from toNumber_large [OF False] show ?thesis
  proof
    assume "toNumber n = PosInfinity"
    with cn show ?thesis by simp
  next
    assume "\<exists>m. toNumber n = Finite (of_nat m) \<and> 2 ^ 53 \<le> m"
    then obtain m where m: "toNumber n = Finite (of_nat m)" "2 ^ 53 \<le> m" by blast
    from m(2) assms have "c < m" by linarith
    with m(1) cn show ?thesis by simp
  qed
qed

lemma image_limit:
  "number_greater (toNumber n) (of_nat (MAX_IMAGE_SIZE_KB * 1024)) = (102400 < n)"
  "number_greater (toNumber n) (of_nat MAX_IMAGE_SIZE_KB * 1024) = (102400 < n)"
  using number_greater_toNumber [of 102400 n] by (simp_all add: MAX_IMAGE_SIZE_KB_def)

section \<open>The first matching line\<close>

lemma findIndexFrom_none:
  "(\<forall>x \<in> set xs. \<not> p x) \<Longrightarrow> findIndexFrom p xs k = - 1"
  by (induction xs arbitrary: k) simp_all

lemma findIndexFrom_first:
  "i < length xs \<Longrightarrow> p (xs ! i) \<Longrightarrow> (\<forall>j<i. \<not> p (xs ! j)) \<Longrightarrow>
   findIndexFrom p xs k = k + int i"
proof (induction xs arbitrary: i k)
  case Nil
  then show ?case by simp
next
  case (Cons x xs)
  show ?case
  proof (cases i)
    case 0
    with Cons.prems show ?thesis by simp
  next
    case (Suc m)
    with Cons.prems have nx: "\<not> p x" by auto
    from Suc Cons.prems have m: "m < length xs" "p (xs ! m)" by simp_all
    have "\<forall>j<m. \<not> p (xs ! j)"
    proof (intro allI impI)
      fix j assume "j < m"
      then have "Suc j < i" using Suc by simp
      with Cons.prems(3) have "\<not> p ((x # xs) ! Suc j)" by blast
      then show "\<not> p (xs ! j)" by simp
    qed
    with Cons.IH [OF m] have "findIndexFrom p xs (k + 1) = k + 1 + int m" by blast
    with nx Suc show ?thesis by simp
  qed
qed

lemma first_index_exists:
  "\<exists>i<length xs. p (xs ! i) \<Longrightarrow> \<exists>i<length xs. p (xs ! i) \<and> (\<forall>j<i. \<not> p (xs ! j))"
proof -
  assume "\<exists>i<length xs. p (xs ! i)"
  then obtain i where i: "i < length xs \<and> p (xs ! i)" by blast
  define m where "m = (LEAST i. i < length xs \<and> p (xs ! i))"
  have a: "m < length xs \<and> p (xs ! m)" unfolding m_def by (rule LeastI [of _ i]) (rule i)
  have b: "\<forall>j<m. \<not> (j < length xs \<and> p (xs ! j))"
    unfolding m_def using not_less_Least by blast
  have "\<forall>j<m. \<not> p (xs ! j)"
  proof (intro allI impI)
    fix j assume jm: "j < m"
    with a have "j < length xs" by simp
    with b jm show "\<not> p (xs ! j)" by blast
  qed
  with a show ?thesis by blast
qed

lemma findIndex_found:
  assumes "\<exists>i<length xs. p (xs ! i)"
  shows "\<exists>i<length xs. p (xs ! i) \<and> (\<forall>j<i. \<not> p (xs ! j)) \<and> findIndex p xs = int i"
proof -
  from first_index_exists [OF assms] obtain i where
    i: "i < length xs" "p (xs ! i)" "\<forall>j<i. \<not> p (xs ! j)" by blast
  from findIndexFrom_first [OF i, of 0] have "findIndex p xs = int i"
    by (simp add: findIndex_def)
  with i show ?thesis by blast
qed

lemma findIndex_none:
  assumes "\<forall>i<length xs. \<not> p (xs ! i)"
  shows "findIndex p xs = - 1"
proof -
  from assms have "\<forall>x \<in> set xs. \<not> p x" by (auto simp add: in_set_conv_nth)
  then show ?thesis by (simp add: findIndex_def findIndexFrom_none)
qed

lemma lineLocation_nonempty: "lineLocation htmlLines tag \<noteq> []"
  by (simp add: lineLocation_def Let_def latin1_Nil)

section \<open>Loops that push\<close>

text \<open>A callback that leaves the report it is given followed by some new findings makes
  a loop that appends, for each element in turn, the findings of that element.\<close>

lemma foldl_step_concat:
  "(\<And>r e. step r e = r @ G e) \<Longrightarrow> foldl step r0 xs = r0 @ concat (map G xs)"
  by (induction xs arbitrary: r0) simp_all

lemma foldl_step_prefix:
  "(\<And>r e. step r e = r @ G e) \<Longrightarrow> prefix r0 (foldl step r0 xs)"
  by (simp add: foldl_step_concat [of step G])

lemma concat_map_if:
  "concat (map (\<lambda>e. if P e then [F e] else []) xs) = map F (filter P xs)"
  by (induction xs) simp_all

lemma map_concat_case:
  "map h (concat (map (\<lambda>e. case A e of
          None \<Rightarrow> []
        | Some b \<Rightarrow>
            (case B e of
               None \<Rightarrow> []
             | Some t \<Rightarrow> if P b t then [F e b t] else [])) xs)) =
   map k (filter (\<lambda>e. \<exists>b t. A e = Some b \<and> B e = Some t \<and> P b t) xs)"
  if "\<And>e b t. h (F e b t) = k e"
  using that by (induction xs) (auto split: option.splits)

lemma filter_concat_all:
  "(\<And>x y. y \<in> set (G x) \<Longrightarrow> P y) \<Longrightarrow> filter P (concat (map G xs)) = concat (map G xs)"
  by (induction xs) simp_all

lemma filter_concat_none:
  "(\<And>x y. y \<in> set (G x) \<Longrightarrow> \<not> P y) \<Longrightarrow> filter P (concat (map G xs)) = []"
  by (induction xs) simp_all

lemma filter_map_all: "(\<And>x. P (F x)) \<Longrightarrow> filter P (map F xs) = map F xs"
  by (induction xs) simp_all

lemma filter_map_none: "(\<And>x. \<not> P (F x)) \<Longrightarrow> filter P (map F xs) = []"
  by (induction xs) simp_all

text \<open>The same for a loop whose callback can throw: a callback that never throws, and a
  callback that throws one error on some elements and pushes nothing on the others.\<close>

lemma each_total:
  "(\<And>r e. callback r e = Inr (r @ G e)) \<Longrightarrow> each callback r0 xs = Inr (r0 @ concat (map G xs))"
  by (induction xs arbitrary: r0) simp_all

lemma each_guard:
  "(\<And>r e. callback r e = (if T e then Inl err else Inr r)) \<Longrightarrow>
   each callback r0 xs = (if \<exists>e \<in> set xs. T e then Inl err else Inr r0)"
  by (induction xs arbitrary: r0) simp_all

section \<open>Selections and the hierarchy of an element\<close>

lemma selectTag_node:
  "e \<in> set (selectTag dollar tag) \<Longrightarrow> \<exists>as cs. fst e = Element tag as cs"
  by (cases "fst e") (auto simp add: selectTag_def)

lemma text_of_Nil: "text_of [] = []"
  by (simp add: text_of_def)

lemma hierarchyLoop_suffix: "\<exists>pre. hierarchyLoop n anc path = pre @ path"
proof (induction n anc path rule: hierarchyLoop.induct)
  case (1 tagName as cs anc path)
  show ?case
  proof (cases "tagName = []")
    case True
    then show ?thesis by simp
  next
    case False
    show ?thesis
    proof (cases anc)
      case Nil
      with False show ?thesis by simp
    next
      case (Cons parent grandparents)
      from "1.IH" [OF False Cons] obtain pre where
        "hierarchyLoop parent grandparents (hierarchySegment tagName as # path) =
         pre @ hierarchySegment tagName as # path" by blast
      with False Cons show ?thesis by simp
    qed
  qed
qed simp_all

lemma hierarchyLoop_own_segment:
  assumes "tagName \<noteq> []"
  shows "hierarchySegment tagName as \<in> set (hierarchyLoop (Element tagName as cs) anc [])"
proof (cases anc)
  case Nil
  with assms show ?thesis by simp
next
  case (Cons parent grandparents)
  obtain pre where "hierarchyLoop parent grandparents [hierarchySegment tagName as] =
      pre @ [hierarchySegment tagName as]"
    using hierarchyLoop_suffix by blast
  with assms Cons show ?thesis by simp
qed

lemma hierarchySegment_nonempty: "tagName \<noteq> [] \<Longrightarrow> hierarchySegment tagName as \<noteq> []"
  by (simp add: hierarchySegment_def Let_def toLowerCase_def)

lemma join_nonempty: "x \<in> set xs \<Longrightarrow> x \<noteq> [] \<Longrightarrow> join xs sep \<noteq> []"
  by (induction xs sep rule: join.induct) auto

lemma img_hierarchy_nonempty:
  assumes "img \<in> set (selectTag dollar (latin1 ''img''))"
  shows "getElementHierarchy img \<noteq> []"
proof -
  from assms obtain as cs where n: "fst img = Element (latin1 ''img'') as cs"
    using selectTag_node by blast
  have t: "latin1 ''img'' \<noteq> []" by (simp add: latin1_Nil)
  show ?thesis
    unfolding getElementHierarchy_def n
    by (rule join_nonempty [OF hierarchyLoop_own_segment [OF t] hierarchySegment_nonempty [OF t]])
qed

section \<open>What each analyser reports\<close>

lemma issues_distinct:
  "issueBlockingScript \<noteq> issueLargeImage"
  "issueMissingAlt \<noteq> issueContrast"
  "issueTitleMissing \<noteq> issueTitleLong"
  by (simp_all add: issueBlockingScript_def issueLargeImage_def issueMissingAlt_def
        issueContrast_def issueTitleMissing_def issueTitleLong_def latin1_inj)

lemma title_issues_other:
  "issueTitleMissing \<noteq> latin1 ''Meta description ausente''"
  "issueTitleMissing \<noteq> latin1 ''Meta description muito longa''"
  "issueTitleMissing \<noteq> latin1 ''Nenhum heading encontrado''"
  "issueTitleLong \<noteq> latin1 ''Meta description ausente''"
  "issueTitleLong \<noteq> latin1 ''Meta description muito longa''"
  "issueTitleLong \<noteq> latin1 ''Nenhum heading encontrado''"
  by (simp_all add: issueTitleMissing_def issueTitleLong_def latin1_inj)

lemma issue_title_findings:
  "issue titleMissingFinding = issueTitleMissing"
  "issue titleLongFinding = issueTitleLong"
  by (simp_all add: titleMissingFinding_def titleLongFinding_def seoFinding_def)

lemma checkTitle_step:
  "checkTitle dollar r =
   r @ (let title = text_of (selectTag dollar (latin1 ''title''))
        in if title = [] then [titleMissingFinding]
           else if length title > 60 then [titleLongFinding] else [])"
  by (simp add: checkTitle_def Let_def push_def)

lemma checkDescription_step:
  "\<exists>fs. checkDescription dollar r = r @ fs \<and>
        (\<forall>f \<in> set fs. issue f = latin1 ''Meta description ausente'' \<or>
                        issue f = latin1 ''Meta description muito longa'')"
  by (simp add: checkDescription_def Let_def push_def descriptionMissingFinding_def
        descriptionLongFinding_def seoFinding_def split: option.splits)

lemma checkHeadings_step:
  "\<exists>fs. checkHeadings dollar r = r @ fs \<and>
        (\<forall>f \<in> set fs. issue f = latin1 ''Nenhum heading encontrado'')"
  by (simp add: checkHeadings_def Let_def push_def headingsMissingFinding_def seoFinding_def)

lemma seo_title_part:
  assumes "i = issueTitleMissing \<or> i = issueTitleLong"
  shows "filter (\<lambda>f. issue f = i) (analyzeSEO dollar htmlLines) =
         filter (\<lambda>f. issue f = i) (checkTitle dollar [])"
proof -
  obtain ds where ds: "checkDescription dollar (checkTitle dollar []) = checkTitle dollar [] @ ds"
    "\<forall>f \<in> set ds. issue f = latin1 ''Meta description ausente'' \<or>
                        issue f = latin1 ''Meta description muito longa''"
    using checkDescription_step by blast
  obtain hs where hs: "checkHeadings dollar (checkTitle dollar [] @ ds) = (checkTitle dollar [] @ ds) @ hs"
    "\<forall>f \<in> set hs. issue f = latin1 ''Nenhum heading encontrado''"
    using checkHeadings_step by blast
  have d: "filter (\<lambda>f. issue f = i) ds = []"
    using ds(2) assms title_issues_other by (auto simp add: filter_empty_conv)
  have h: "filter (\<lambda>f. issue f = i) hs = []"
    using hs(2) assms title_issues_other by (auto simp add: filter_empty_conv)
  show ?thesis
    by (simp add: analyzeSEO_def ds(1) hs(1) d h)
qed

lemma eachScript_step:
  "eachScript dollar htmlLines r s =
   r @ (if (\<exists>src. attribs (fst s) (latin1 ''src'') = Some src \<and> src \<noteq> []) \<and>
           attribs (fst s) (latin1 ''async'') = None \<and>
           attribs (fst s) (latin1 ''defer'') = None
        then [scriptFinding dollar htmlLines s (attribs (fst s) (latin1 ''src''))] else [])"
  by (simp add: eachScript_def Let_def push_def truthy_iff)

lemma scripts_report:
  "foldl (eachScript dollar htmlLines) r0 xs =
   r0 @ map (\<lambda>s. scriptFinding dollar htmlLines s (attribs (fst s) (latin1 ''src'')))
     (filter (\<lambda>s. (\<exists>src. attribs (fst s) (latin1 ''src'') = Some src \<and> src \<noteq> []) \<and>
                  attribs (fst s) (latin1 ''async'') = None \<and>
                  attribs (fst s) (latin1 ''defer'') = None) xs)"
  by (simp only: foldl_step_concat [of "eachScript dollar htmlLines", OF eachScript_step]
        concat_map_if)

lemma eachImageStart_step:
  "eachImageStart r img =
   r @ (case attribs (fst img) (latin1 ''src'') of
          None \<Rightarrow> []
        | Some src \<Rightarrow> if src \<noteq> [] \<and> \<not> startsWith src (latin1 ''data:'') then [(img, src)] else [])"
  by (simp add: eachImageStart_def split: option.splits)

lemma scheduled_checks:
  "map fst (foldl eachImageStart [] xs) =
   filter (\<lambda>img. \<exists>src. attribs (fst img) (latin1 ''src'') = Some src \<and> src \<noteq> [] \<and>
                   \<not> startsWith src (latin1 ''data:'')) xs"
proof -
  have "map fst (concat (map (\<lambda>img. case attribs (fst img) (latin1 ''src'') of
          None \<Rightarrow> []
        | Some src \<Rightarrow> if src \<noteq> [] \<and> \<not> startsWith src (latin1 ''data:'') then [(img, src)]
            else []) xs)) =
     filter (\<lambda>img. \<exists>src. attribs (fst img) (latin1 ''src'') = Some src \<and> src \<noteq> [] \<and>
                   \<not> startsWith src (latin1 ''data:'')) xs"
    by (induction xs) (auto split: option.splits)
  then show ?thesis
    by (simp only: foldl_step_concat [of eachImageStart, OF eachImageStart_step] append_Nil)
qed

lemma eachImgAlt_step:
  "eachImgAlt dollar htmlLines r img =
   r @ (if attribs (fst img) (latin1 ''alt'') = None \<or> attribs (fst img) (latin1 ''alt'') = Some []
        then [altFinding dollar htmlLines img] else [])"
  by (simp add: eachImgAlt_def Let_def push_def not_truthy_iff)

lemma eachContrast_function:
  "eachContrast (Some f) dollar htmlLines r e =
   Inr (r @ (case css dollar (fst e) (latin1 ''background-color'') of
          None \<Rightarrow> []
        | Some bgColor \<Rightarrow>
            (case css dollar (fst e) (latin1 ''color'') of
               None \<Rightarrow> []
             | Some textColor \<Rightarrow>
                 if bgColor \<noteq> [] \<and> textColor \<noteq> [] \<and> number_less (f bgColor textColor) (9 / 2)
                 then [contrastFinding dollar htmlLines e (f bgColor textColor)]
                 else [])))"
  by (simp add: eachContrast_def Let_def push_def split: option.splits)

lemma eachContrast_undefined:
  "eachContrast None dollar htmlLines r e =
   (if truthy (css dollar (fst e) (latin1 ''background-color'')) \<and>
       truthy (css dollar (fst e) (latin1 ''color''))
    then Inl (Error (latin1 ''contrast is not a function'')) else Inr r)"
  by (simp add: eachContrast_def truthy_iff split: option.splits)

lemma alt_report:
  "foldl (eachImgAlt dollar htmlLines) r0 xs =
   r0 @ map (altFinding dollar htmlLines)
     (filter (\<lambda>img. attribs (fst img) (latin1 ''alt'') = None \<or>
                     attribs (fst img) (latin1 ''alt'') = Some []) xs)"
  by (simp only: foldl_step_concat [of "eachImgAlt dollar htmlLines", OF eachImgAlt_step]
        concat_map_if)

text \<open>With a function for \<open>contrast\<close> the analyser returns the findings of the images
  followed by those of the contrast check.\<close>

lemma accessibility_function:
  "analyzeAccessibility (Some f) dollar htmlLines =
   Inr (map (altFinding dollar htmlLines)
     (filter (\<lambda>img. attribs (fst img) (latin1 ''alt'') = None \<or>
                     attribs (fst img) (latin1 ''alt'') = Some [])
        (selectTag dollar (latin1 ''img''))) @
   concat (map (\<lambda>e. case css dollar (fst e) (latin1 ''background-color'') of
          None \<Rightarrow> []
        | Some bgColor \<Rightarrow>
            (case css dollar (fst e) (latin1 ''color'') of
               None \<Rightarrow> []
             | Some textColor \<Rightarrow>
                 if bgColor \<noteq> [] \<and> textColor \<noteq> [] \<and> number_less (f bgColor textColor) (9 / 2)
                 then [contrastFinding dollar htmlLines e (f bgColor textColor)]
                 else [])) (selectAll dollar)))"
  unfolding analyzeAccessibility_def Let_def alt_report append_Nil
  by (rule each_total) (rule eachContrast_function)

text \<open>With \<open>contrast\<close> undefined the analyser throws as soon as one element has both
  colours, and returns the findings of the images otherwise: it never returns a finding of
  the contrast check.\<close>

lemma accessibility_undefined:
  "analyzeAccessibility None dollar htmlLines =
   (if \<exists>e \<in> set (selectAll dollar).
         truthy (css dollar (fst e) (latin1 ''background-color'')) \<and>
         truthy (css dollar (fst e) (latin1 ''color''))
    then Inl (Error (latin1 ''contrast is not a function''))
    else Inr (map (altFinding dollar htmlLines)
      (filter (\<lambda>img. attribs (fst img) (latin1 ''alt'') = None \<or>
                      attribs (fst img) (latin1 ''alt'') = Some [])
         (selectTag dollar (latin1 ''img'')))))"
  unfolding analyzeAccessibility_def Let_def alt_report append_Nil
  by (rule each_guard) (rule eachContrast_undefined)

lemma issue_altFinding: "issue (altFinding dollar htmlLines img) = issueMissingAlt"
  by (simp add: altFinding_def Let_def)

lemma issue_contrastFinding: "issue (contrastFinding dollar htmlLines e r) = issueContrast"
  by (simp add: contrastFinding_def Let_def)

lemma eachLink_step:
  "eachLink dollar htmlLines r link =
   r @ (case attribs (fst link) (latin1 ''href'') of
          None \<Rightarrow> []
        | Some href \<Rightarrow>
            if href \<noteq> [] \<and> startsWith href (latin1 ''#'')
            then [brokenLinkFinding dollar htmlLines link href] else [])"
  by (simp add: eachLink_def push_def split: option.splits)

lemma links_report:
  "analyzeBrokenLinks dollar htmlLines =
   concat (map (\<lambda>link. case attribs (fst link) (latin1 ''href'') of
          None \<Rightarrow> []
        | Some href \<Rightarrow>
            if href \<noteq> [] \<and> startsWith href (latin1 ''#'')
            then [brokenLinkFinding dollar htmlLines link href] else [])
     (selectTag dollar (latin1 ''a'')))"
  unfolding analyzeBrokenLinks_def
  by (simp only: foldl_step_concat [of "eachLink dollar htmlLines", OF eachLink_step] append_Nil)

section \<open>The fields of the findings\<close>

lemma fields_seoFinding:
  "i \<noteq> [] \<Longrightarrow> s \<noteq> [] \<Longrightarrow> l \<noteq> [] \<Longrightarrow>
   type (seoFinding i s l) \<noteq> [] \<and> issue (seoFinding i s l) \<noteq> [] \<and>
   solution (seoFinding i s l) \<noteq> [] \<and> location (seoFinding i s l) \<noteq> []"
  by (simp add: seoFinding_def latin1_Nil)

lemma fields_title:
  "type titleMissingFinding \<noteq> [] \<and> issue titleMissingFinding \<noteq> [] \<and>
   solution titleMissingFinding \<noteq> [] \<and> location titleMissingFinding \<noteq> []"
  "type titleLongFinding \<noteq> [] \<and> issue titleLongFinding \<noteq> [] \<and>
   solution titleLongFinding \<noteq> [] \<and> location titleLongFinding \<noteq> []"
  unfolding titleMissingFinding_def titleLongFinding_def
  by (rule fields_seoFinding; simp add: latin1_Nil issueTitleMissing_def issueTitleLong_def)+

lemma fields_checkTitle:
  "\<exists>fs. checkTitle dollar r = r @ fs \<and>
     (\<forall>f \<in> set fs. type f \<noteq> [] \<and> issue f \<noteq> [] \<and> solution f \<noteq> [] \<and> location f \<noteq> [])"
  using fields_title by (simp add: checkTitle_step Let_def)

lemma fields_checkDescription:
  "\<exists>fs. checkDescription dollar r = r @ fs \<and>
     (\<forall>f \<in> set fs. type f \<noteq> [] \<and> issue f \<noteq> [] \<and> solution f \<noteq> [] \<and> location f \<noteq> [])"
  by (simp add: checkDescription_def Let_def push_def descriptionMissingFinding_def
        descriptionLongFinding_def seoFinding_def latin1_Nil split: option.splits)

lemma fields_checkHeadings:
  "\<exists>fs. checkHeadings dollar r = r @ fs \<and>
     (\<forall>f \<in> set fs. type f \<noteq> [] \<and> issue f \<noteq> [] \<and> solution f \<noteq> [] \<and> location f \<noteq> [])"
  by (simp add: checkHeadings_def Let_def push_def headingsMissingFinding_def seoFinding_def
        latin1_Nil)

lemma fields_analyzeSEO:
  "\<forall>f \<in> set (analyzeSEO dollar htmlLines).
     type f \<noteq> [] \<and> issue f \<noteq> [] \<and> solution f \<noteq> [] \<and> location f \<noteq> []"
proof -
  obtain ts where ts: "checkTitle dollar [] = [] @ ts"
    "\<forall>f \<in> set ts. type f \<noteq> [] \<and> issue f \<noteq> [] \<and> solution f \<noteq> [] \<and> location f \<noteq> []"
    using fields_checkTitle by blast
  obtain ds where ds: "checkDescription dollar ts = ts @ ds"
    "\<forall>f \<in> set ds. type f \<noteq> [] \<and> issue f \<noteq> [] \<and> solution f \<noteq> [] \<and> location f \<noteq> []"
    using fields_checkDescription by blast
  obtain hs where hs: "checkHeadings dollar (ts @ ds) = (ts @ ds) @ hs"
    "\<forall>f \<in> set hs. type f \<noteq> [] \<and> issue f \<noteq> [] \<and> solution f \<noteq> [] \<and> location f \<noteq> []"
    using fields_checkHeadings by blast
  from ts(1) have "analyzeSEO dollar htmlLines = ts @ ds @ hs"
    by (simp add: analyzeSEO_def ds(1) hs(1))
  with ts(2) ds(2) hs(2) show ?thesis by auto
qed

lemma fields_scriptFinding:
  "type (scriptFinding dollar htmlLines s src) \<noteq> [] \<and>
   issue (scriptFinding dollar htmlLines s src) \<noteq> [] \<and>
   solution (scriptFinding dollar htmlLines s src) \<noteq> [] \<and>
   location (scriptFinding dollar htmlLines s src) \<noteq> []"
  by (simp add: scriptFinding_def Let_def latin1_Nil issueBlockingScript_def lineLocation_nonempty)

lemma fields_imageFinding:
  "type (imageFinding dollar htmlLines img src n) \<noteq> [] \<and>
   issue (imageFinding dollar htmlLines img src n) \<noteq> [] \<and>
   solution (imageFinding dollar htmlLines img src n) \<noteq> [] \<and>
   location (imageFinding dollar htmlLines img src n) \<noteq> []"
  by (simp add: imageFinding_def Let_def latin1_Nil issueLargeImage_def lineLocation_nonempty)

lemma fields_altFinding:
  "type (altFinding dollar htmlLines img) \<noteq> [] \<and>
   issue (altFinding dollar htmlLines img) \<noteq> [] \<and>
   solution (altFinding dollar htmlLines img) \<noteq> [] \<and>
   location (altFinding dollar htmlLines img) \<noteq> []"
  by (simp add: altFinding_def Let_def latin1_Nil issueMissingAlt_def lineLocation_nonempty)

lemma fields_contrastFinding:
  "type (contrastFinding dollar htmlLines e r) \<noteq> [] \<and>
   issue (contrastFinding dollar htmlLines e r) \<noteq> [] \<and>
   solution (contrastFinding dollar htmlLines e r) \<noteq> [] \<and>
   location (contrastFinding dollar htmlLines e r) \<noteq> []"
  by (simp add: contrastFinding_def Let_def latin1_Nil issueContrast_def lineLocation_nonempty)

lemma fields_brokenLinkFinding:
  "type (brokenLinkFinding dollar htmlLines e h) \<noteq> [] \<and>
   issue (brokenLinkFinding dollar htmlLines e h) \<noteq> [] \<and>
   solution (brokenLinkFinding dollar htmlLines e h) \<noteq> [] \<and>
   location (brokenLinkFinding dollar htmlLines e h) \<noteq> []"
  by (simp add: brokenLinkFinding_def Let_def latin1_Nil lineLocation_nonempty)

lemma fields_securityFinding:
  "type securityFinding \<noteq> [] \<and> issue securityFinding \<noteq> [] \<and>
   solution securityFinding \<noteq> [] \<and> location securityFinding \<noteq> []"
  by (simp add: securityFinding_def latin1_Nil)

lemma fields_mobileFinding:
  "type mobileFinding \<noteq> [] \<and> issue mobileFinding \<noteq> [] \<and>
   solution mobileFinding \<noteq> [] \<and> location mobileFinding \<noteq> []"
  by (simp add: mobileFinding_def latin1_Nil)

lemma eachImageResume_step:
  "\<exists>fs. fst (eachImageResume dollar htmlLines check response (r, out)) = r @ fs \<and>
     (\<forall>f \<in> set fs. type f \<noteq> [] \<and> issue f \<noteq> [] \<and> solution f \<noteq> [] \<and> location f \<noteq> [])"
  using fields_imageFinding
  by (simp add: eachImageResume_def Let_def push_def split: headResponse.splits option.splits)

lemma fields_performance:
  "\<forall>f \<in> set (fst (analyzePerformance dollar htmlLines)).
     type f \<noteq> [] \<and> issue f \<noteq> [] \<and> solution f \<noteq> [] \<and> location f \<noteq> []"
  using fields_scriptFinding
  by (auto simp add: analyzePerformance_def Let_def scripts_report)

lemma fields_resume:
  "\<forall>f \<in> set (fst (eachImageResume dollar htmlLines check response ([], out))).
     type f \<noteq> [] \<and> issue f \<noteq> [] \<and> solution f \<noteq> [] \<and> location f \<noteq> []"
  using eachImageResume_step [of dollar htmlLines check response "[]" out] by auto

lemma fields_alt_loop:
  "\<forall>f \<in> set (foldl (eachImgAlt dollar htmlLines) [] elements).
     type f \<noteq> [] \<and> issue f \<noteq> [] \<and> solution f \<noteq> [] \<and> location f \<noteq> []"
  unfolding alt_report using fields_altFinding by auto

lemma fields_accessibility:
  assumes "analyzeAccessibility c dollar htmlLines = Inr report"
  shows "\<forall>f \<in> set report.
     type f \<noteq> [] \<and> issue f \<noteq> [] \<and> solution f \<noteq> [] \<and> location f \<noteq> []"
proof (cases c)
  case None
  with assms show ?thesis
    using fields_altFinding by (auto simp add: accessibility_undefined split: if_splits)
next
  case (Some f)
  with assms show ?thesis
    using fields_altFinding fields_contrastFinding
    by (auto simp add: accessibility_function split: option.splits if_splits)
qed

lemma eachContrast_loop:
  assumes "each (eachContrast c dollar htmlLines) report elements = Inr report'"
  shows "\<exists>fs. report' = report @ fs \<and>
    (\<forall>f \<in> set fs. type f \<noteq> [] \<and> issue f \<noteq> [] \<and> solution f \<noteq> [] \<and> location f \<noteq> [])"
proof (cases c)
  case None
  with assms have "report' = report @ []"
    by (simp add: each_guard [of "eachContrast None dollar htmlLines", OF eachContrast_undefined]
          split: if_splits)
  then show ?thesis by simp
next
  case (Some f)
  let ?fs = "concat (map (\<lambda>e. case css dollar (fst e) (latin1 ''background-color'') of
          None \<Rightarrow> []
        | Some bgColor \<Rightarrow>
            (case css dollar (fst e) (latin1 ''color'') of
               None \<Rightarrow> []
             | Some textColor \<Rightarrow>
                 if bgColor \<noteq> [] \<and> textColor \<noteq> [] \<and> number_less (f bgColor textColor) (9 / 2)
                 then [contrastFinding dollar htmlLines e (f bgColor textColor)]
                 else [])) elements)"
  from assms Some have "report' = report @ ?fs"
    by (simp add: each_total [of "eachContrast (Some f) dollar htmlLines",
          OF eachContrast_function])
  moreover have "\<forall>f \<in> set ?fs.
      type f \<noteq> [] \<and> issue f \<noteq> [] \<and> solution f \<noteq> [] \<and> location f \<noteq> []"
    using fields_contrastFinding by (auto split: option.splits if_splits)
  ultimately show ?thesis by blast
qed

lemma fields_links:
  "\<forall>f \<in> set (analyzeBrokenLinks dollar htmlLines).
     type f \<noteq> [] \<and> issue f \<noteq> [] \<and> solution f \<noteq> [] \<and> location f \<noteq> []"
  unfolding links_report
  using fields_brokenLinkFinding
  by (auto split: option.splits if_splits)

lemma fields_security:
  "\<forall>f \<in> set (analyzeSecurity dollar htmlLines).
     type f \<noteq> [] \<and> issue f \<noteq> [] \<and> solution f \<noteq> [] \<and> location f \<noteq> []"
  using fields_securityFinding by (simp add: analyzeSecurity_def Let_def push_def)

lemma fields_mobile:
  "\<forall>f \<in> set (analyzeMobile dollar htmlLines).
     type f \<noteq> [] \<and> issue f \<noteq> [] \<and> solution f \<noteq> [] \<and> location f \<noteq> []"
  using fields_mobileFinding by (simp add: analyzeMobile_def Let_def push_def)

section \<open>The orchestrator\<close>

text \<open>When the body is a string and nothing throws before the write, the files after the
  run are those the write of the report file leaves.\<close>

lemma analyzeSite_writes:
  assumes "axios_get ext url = Inr (TextBody text)" and "cheerio_load ext (TextBody text) = Inr dollar"
    and "analyzeAccessibility (contrast ext) dollar (split text 0x0A) = Inr accessibilityReport"
  shows "\<exists>report. files (analyzeSite ext url w) =
           snd (writeFileSync ext REPORT_FILE (reportItems report 0 reportHeader) (files w))"
proof -
  let ?lines = "split text 0x0A"
  let ?report = "analyzeSEO dollar ?lines @ fst (analyzePerformance dollar ?lines) @
    accessibilityReport @ analyzeBrokenLinks dollar ?lines @
    analyzeSecurity dollar ?lines @ analyzeMobile dollar ?lines"
  have "files (analyzeSite ext url w) =
           snd (writeFileSync ext REPORT_FILE (reportItems ?report 0 reportHeader) (files w))"
    using assms
    by (cases "writeFileSync ext REPORT_FILE (reportItems ?report 0 reportHeader) (files w)")
       (auto simp add: analyzeSite_def generateReport_def Let_def catchError_def
          split: option.splits)
  then show ?thesis by blast
qed

text \<open>An error thrown by \<open>data.split\<close> or by \<open>analyzeAccessibility\<close> ends the run as a
  failed fetch does: one error line, no report.\<close>

lemma analyzeSite_throws:
  assumes "axios_get ext url = Inr data" and "cheerio_load ext data = Inr dollar"
    and "splitLines data = Inl e \<or>
      (\<exists>htmlLines. splitLines data = Inr htmlLines \<and>
         analyzeAccessibility (contrast ext) dollar htmlLines = Inl e)"
  shows "files (analyzeSite ext url w) = files w \<and>
    console (analyzeSite ext url w) =
      console w @ [[0x274C] @ latin1 '' '' @ latin1 ''Erro ao analisar o site: '' @ message e]"
  using assms by (auto simp add: analyzeSite_def Let_def catchError_def logError_def)

section \<open>The examples, evaluated\<close>

lemmas sample_defs = samplePage_def sampleRoot_def sampleHead_def sampleBody_def scriptA_def
  scriptB_def scriptInline_def imgA_def imgB_def imgC_def parGray_def parSilver_def linkTop_def
  linkExt_def

lemma sample_all:
  "selectAll samplePage =
   [(sampleRoot, []), (sampleHead, [sampleRoot]), (scriptA, [sampleHead, sampleRoot]),
    (scriptB, [sampleHead, sampleRoot]), (scriptInline, [sampleHead, sampleRoot]),
    (sampleBody, [sampleRoot]), (imgA, [sampleBody, sampleRoot]), (imgB, [sampleBody, sampleRoot]),
    (imgC, [sampleBody, sampleRoot]), (parGray, [sampleBody, sampleRoot]),
    (parSilver, [sampleBody, sampleRoot]), (linkTop, [sampleBody, sampleRoot]),
    (linkExt, [sampleBody, sampleRoot])]"
  by (simp add: selectAll_def sample_defs)

lemma sample_scripts:
  "selectTag samplePage (latin1 ''script'') =
   [(scriptA, [sampleHead, sampleRoot]), (scriptB, [sampleHead, sampleRoot]),
    (scriptInline, [sampleHead, sampleRoot])]"
  by (simp add: selectTag_def selectAll_def sample_defs latin1_inj)

lemma sample_imgs:
  "selectTag samplePage (latin1 ''img'') =
   [(imgA, [sampleBody, sampleRoot]), (imgB, [sampleBody, sampleRoot]),
    (imgC, [sampleBody, sampleRoot])]"
  by (simp add: selectTag_def selectAll_def sample_defs latin1_inj)

lemma sample_links:
  "selectTag samplePage (latin1 ''a'') =
   [(linkTop, [sampleBody, sampleRoot]), (linkExt, [sampleBody, sampleRoot])]"
  by (simp add: selectTag_def selectAll_def sample_defs latin1_inj)

lemma sample_titles: "selectTag samplePage (latin1 ''title'') = []"
  by (simp add: selectTag_def selectAll_def sample_defs latin1_inj)

lemma sample_hierarchy:
  "getElementHierarchy (imgA, [sampleBody, sampleRoot]) = latin1 ''html > body.home.dark > img''"
  by (simp add: getElementHierarchy_def sample_defs hierarchySegment_def Let_def latin1_def
        toLowerCase_def lowerUnit_def)

lemma sample_lines:
  "sampleLines =
   [latin1 ''<!DOCTYPE html>'',
    latin1 (''<head><script src='' @ [CHR 0x22] @ ''a.js'' @ [CHR 0x22] @ ''></script>''),
    latin1 (''<img src='' @ [CHR 0x22] @ ''a.png'' @ [CHR 0x22] @ ''></img>'')]"
  by (simp add: sampleLines_def scriptA_def imgA_def latin1_app)

lemma sample_tags:
  "sampleHtml scriptA = latin1 (''<script src='' @ [CHR 0x22] @ ''a.js'' @ [CHR 0x22] @ ''></script>'')"
  "sampleHtml scriptC = latin1 (''<script src='' @ [CHR 0x22] @ ''c.js'' @ [CHR 0x22] @ ''></script>'')"
  "sampleHtml imgA = latin1 (''<img src='' @ [CHR 0x22] @ ''a.png'' @ [CHR 0x22] @ ''></img>'')"
  "sampleHtml linkTop = latin1 (''<a href='' @ [CHR 0x22] @ ''#top'' @ [CHR 0x22] @ ''>up</a>'')"
  by (simp_all add: scriptA_def scriptC_def imgA_def linkTop_def latin1_app)

lemma toString_small:
  "toString 1 = latin1 ''1''" "toString 2 = latin1 ''2''" "toString 3 = latin1 ''3''"
  "toString 100 = latin1 ''100''"
  by (simp_all add: toString_def digits.simps latin1_def)

lemma sample_attribs:
  "attribs scriptA (latin1 ''src'') = Some (latin1 ''a.js'')"
  "attribs scriptA (latin1 ''async'') = None"
  "attribs scriptA (latin1 ''defer'') = None"
  "attribs scriptB (latin1 ''src'') = Some (latin1 ''b.js'')"
  "attribs scriptB (latin1 ''async'') = None"
  "attribs scriptB (latin1 ''defer'') = Some []"
  "attribs scriptInline (latin1 ''src'') = None"
  "attribs scriptInline (latin1 ''async'') = None"
  "attribs scriptInline (latin1 ''defer'') = None"
  "attribs imgA (latin1 ''src'') = Some (latin1 ''a.png'')"
  "attribs imgA (latin1 ''alt'') = None"
  "attribs imgB (latin1 ''src'') = Some (latin1 ''data:x'')"
  "attribs imgB (latin1 ''alt'') = Some (latin1 ''logo'')"
  "attribs imgC (latin1 ''src'') = Some (latin1 ''b.png'')"
  "attribs imgC (latin1 ''alt'') = Some []"
  "attribs linkTop (latin1 ''href'') = Some (latin1 ''#top'')"
  "attribs linkExt (latin1 ''href'') = Some (latin1 ''https://example.org/'')"
  by (simp_all add: scriptA_def scriptB_def scriptInline_def imgA_def imgB_def imgC_def
        linkTop_def linkExt_def latin1_inj)

lemma sample_style:
  "sampleDeclarations (split (latin1 ''color:gray;background-color:white'') 0x3B) =
     [(latin1 ''color'', latin1 ''gray''), (latin1 ''background-color'', latin1 ''white'')]"
  "sampleDeclarations (split (latin1 ''color:silver;background-color:white'') 0x3B) =
     [(latin1 ''color'', latin1 ''silver''), (latin1 ''background-color'', latin1 ''white'')]"
  by (simp_all add: latin1_def)

lemma sample_css:
  "css samplePage = sampleCss"
  "css colouredPage = sampleCss"
  "css plainPage = sampleCss"
  "sampleCss sampleRoot property = None"
  "sampleCss sampleHead property = None"
  "sampleCss sampleBody property = None"
  "sampleCss scriptA property = None"
  "sampleCss scriptB property = None"
  "sampleCss scriptInline property = None"
  "sampleCss imgA property = None"
  "sampleCss imgB property = None"
  "sampleCss imgC property = None"
  "sampleCss linkTop property = None"
  "sampleCss linkExt property = None"
  "sampleCss parGray (latin1 ''background-color'') = Some (latin1 ''white'')"
  "sampleCss parGray (latin1 ''color'') = Some (latin1 ''gray'')"
  "sampleCss parSilver (latin1 ''background-color'') = Some (latin1 ''white'')"
  "sampleCss parSilver (latin1 ''color'') = Some (latin1 ''silver'')"
  by (simp_all add: sample_defs colouredPage_def plainPage_def sampleCss_def sample_style
        latin1_inj)

lemma sample_locations:
  "lineLocation twoScriptsLines (sampleHtml scriptA) = latin1 ''Linha 2''"
  "lineLocation twoScriptsLines (sampleHtml scriptC) = latin1 ''Linha 1''"
  "lineLocation sampleLines (sampleHtml imgA) = latin1 ''Linha 3''"
  by (simp_all add: lineLocation_def findIndex_def Let_def twoScriptsLines_def sample_lines
        sample_tags includes_str_latin1 toString_small latin1_app)

lemma two_scripts:
  "selectTag twoScriptsPage (latin1 ''script'') = [(scriptA, []), (scriptC, [])]"
  "html twoScriptsPage = sampleHtml"
  "attribs scriptC (latin1 ''src'') = Some (latin1 ''c.js'')"
  "attribs scriptC (latin1 ''async'') = None"
  "attribs scriptC (latin1 ''defer'') = None"
  by (simp_all add: selectTag_def selectAll_def twoScriptsPage_def scriptA_def scriptC_def
        latin1_inj)

lemma plain_page:
  "selectAll plainPage = [(imgA, []), (linkTop, [])]"
  "selectTag plainPage (latin1 ''img'') = [(imgA, [])]"
  "html plainPage = sampleHtml"
  by (simp_all add: selectTag_def selectAll_def plainPage_def imgA_def linkTop_def latin1_inj)

lemma plain_accessibility:
  "analyzeAccessibility None plainPage sampleLines = Inr [altFinding plainPage sampleLines (imgA, [])]"
  by (simp add: accessibility_undefined plain_page sample_css sample_attribs)

section \<open>The claims\<close>

subsection \<open>C1: broken links\<close>

text \<open>
  C1 says that the Broken-Links analyser produces exactly one finding for each \<open>a\<close> element
  whose \<open>href\<close> is the empty string or starts with \<open>#\<close>, and none for an \<open>href\<close> starting
  with \<open>https://\<close>. The callback tests \<open>href && (href.startsWith('#') || href === '')\<close>:
  the empty string is falsy, so the second alternative is never reached and an empty
  \<open>href\<close> gets no finding. The theorem runs the analyser on the document
  \<open><a href="">x</a>\<close>: the element is selected, its \<open>href\<close> is the empty string, and the
  report is empty.
\<close>

theorem brokenLinks_empty_href_no_finding:
  "attribs emptyHrefLink (latin1 ''href'') = Some [] \<and>
   selectTag emptyHrefPage (latin1 ''a'') = [(emptyHrefLink, [])] \<and>
   analyzeBrokenLinks emptyHrefPage [sampleHtml emptyHrefLink] = []"
  by (simp add: analyzeBrokenLinks_def eachLink_def selectTag_def selectAll_def
        emptyHrefPage_def emptyHrefLink_def latin1_inj)

subsection \<open>C2: the image checks are not awaited\<close>

text \<open>
  C2: the list \<open>analyzePerformance\<close> returns holds blocking-script findings only and no
  image-size finding (\<open>Imagem muito grande\<close>), for every document. The image checks are
  scheduled, one for each image whose \<open>src\<close> is non-empty and is not a \<open>data:\<close> URI, and an
  image finding is pushed only when such a check is resumed with a content length above
  100 KB.
\<close>

theorem performance_report_scripts_only:
  "(\<forall>f \<in> set (fst (analyzePerformance dollar htmlLines)).
      issue f = issueBlockingScript \<and> issue f \<noteq> issueLargeImage) \<and>
   map fst (snd (analyzePerformance dollar htmlLines)) =
     filter (\<lambda>img. \<exists>src. attribs (fst img) (latin1 ''src'') = Some src \<and> src \<noteq> [] \<and>
                     \<not> startsWith src (latin1 ''data:''))
       (selectTag dollar (latin1 ''img'')) \<and>
   fst (eachImageResume dollar htmlLines (img, src) (Resolved (Some n)) (report, out)) =
     (if n > 102400 then report @ [imageFinding dollar htmlLines img src n] else report)"
proof (intro conjI)
  show "\<forall>f \<in> set (fst (analyzePerformance dollar htmlLines)).
      issue f = issueBlockingScript \<and> issue f \<noteq> issueLargeImage"
    by (auto simp add: analyzePerformance_def Let_def scripts_report scriptFinding_def
          issues_distinct)
  show "map fst (snd (analyzePerformance dollar htmlLines)) =
     filter (\<lambda>img. \<exists>src. attribs (fst img) (latin1 ''src'') = Some src \<and> src \<noteq> [] \<and>
                     \<not> startsWith src (latin1 ''data:''))
       (selectTag dollar (latin1 ''img''))"
    by (simp add: analyzePerformance_def Let_def scheduled_checks)
  show "fst (eachImageResume dollar htmlLines (img, src) (Resolved (Some n)) (report, out)) =
     (if n > 102400 then report @ [imageFinding dollar htmlLines img src n] else report)"
    by (simp add: eachImageResume_def Let_def image_limit push_def)
qed

theorem performance_report_scripts_only_witness:
  "scriptFinding samplePage sampleLines (scriptA, [sampleHead, sampleRoot]) (Some (latin1 ''a.js''))
     \<in> set (fst (analyzePerformance samplePage sampleLines)) \<and>
   issue (scriptFinding samplePage sampleLines (scriptA, [sampleHead, sampleRoot])
     (Some (latin1 ''a.js''))) \<noteq> issueLargeImage \<and>
   map fst (snd (analyzePerformance samplePage sampleLines)) =
     [(imgA, [sampleBody, sampleRoot]), (imgC, [sampleBody, sampleRoot])] \<and>
   fst (eachImageResume samplePage sampleLines ((imgA, [sampleBody, sampleRoot]), latin1 ''a.png'')
          (Resolved (Some 150000)) ([], [])) =
     [imageFinding samplePage sampleLines (imgA, [sampleBody, sampleRoot]) (latin1 ''a.png'') 150000]"
proof -
  let ?f = "scriptFinding samplePage sampleLines (scriptA, [sampleHead, sampleRoot])
    (Some (latin1 ''a.js''))"
  note t = performance_report_scripts_only [where dollar = samplePage and htmlLines = sampleLines
    and img = "(imgA, [sampleBody, sampleRoot])" and src = "latin1 ''a.png''" and n = 150000
    and report = "[]" and out = "[]"]
  have m: "?f \<in> set (fst (analyzePerformance samplePage sampleLines))"
    unfolding analyzePerformance_def Let_def fst_conv scripts_report
    by (simp add: sample_scripts sample_attribs latin1_Nil)
  from t m have a: "issue ?f \<noteq> issueLargeImage" by blast
  from t have "map fst (snd (analyzePerformance samplePage sampleLines)) =
     filter (\<lambda>img. \<exists>src. attribs (fst img) (latin1 ''src'') = Some src \<and> src \<noteq> [] \<and>
                     \<not> startsWith src (latin1 ''data:''))
       (selectTag samplePage (latin1 ''img''))" by blast
  then have b: "map fst (snd (analyzePerformance samplePage sampleLines)) =
     [(imgA, [sampleBody, sampleRoot]), (imgC, [sampleBody, sampleRoot])]"
    by (simp add: sample_imgs sample_attribs latin1_Nil startsWith_latin1)
  from t have c: "fst (eachImageResume samplePage sampleLines
          ((imgA, [sampleBody, sampleRoot]), latin1 ''a.png'') (Resolved (Some 150000)) ([], [])) =
     [imageFinding samplePage sampleLines (imgA, [sampleBody, sampleRoot]) (latin1 ''a.png'') 150000]"
    by simp
  from m a b c show ?thesis by blast
qed

subsection \<open>C3: the title\<close>

text \<open>
  C3: a document with no \<open>title\<close> element gets exactly one missing-title finding and no
  title-too-long finding; a title text of 61 code units gets the title-too-long finding, one
  of 60 does not.
\<close>

theorem seo_title_findings:
  "(selectTag dollar (latin1 ''title'') = [] \<longrightarrow>
      filter (\<lambda>f. issue f = issueTitleMissing) (analyzeSEO dollar htmlLines) = [titleMissingFinding] \<and>
      filter (\<lambda>f. issue f = issueTitleLong) (analyzeSEO dollar htmlLines) = []) \<and>
   (length (text_of (selectTag dollar (latin1 ''title''))) = 61 \<longrightarrow>
      filter (\<lambda>f. issue f = issueTitleLong) (analyzeSEO dollar htmlLines) = [titleLongFinding]) \<and>
   (length (text_of (selectTag dollar (latin1 ''title''))) = 60 \<longrightarrow>
      filter (\<lambda>f. issue f = issueTitleLong) (analyzeSEO dollar htmlLines) = [])"
proof (intro conjI impI)
  assume a: "selectTag dollar (latin1 ''title'') = []"
  show "filter (\<lambda>f. issue f = issueTitleMissing) (analyzeSEO dollar htmlLines) = [titleMissingFinding]"
    by (simp add: seo_title_part checkTitle_step a text_of_Nil issue_title_findings)
  show "filter (\<lambda>f. issue f = issueTitleLong) (analyzeSEO dollar htmlLines) = []"
    using issues_distinct(3)
    by (simp add: seo_title_part checkTitle_step a text_of_Nil issue_title_findings)
next
  assume a: "length (text_of (selectTag dollar (latin1 ''title''))) = 61"
  then have "text_of (selectTag dollar (latin1 ''title'')) \<noteq> []" by auto
  with a show "filter (\<lambda>f. issue f = issueTitleLong) (analyzeSEO dollar htmlLines) = [titleLongFinding]"
    by (simp add: seo_title_part checkTitle_step Let_def issue_title_findings)
next
  assume a: "length (text_of (selectTag dollar (latin1 ''title''))) = 60"
  then have "text_of (selectTag dollar (latin1 ''title'')) \<noteq> []" by auto
  with a show "filter (\<lambda>f. issue f = issueTitleLong) (analyzeSEO dollar htmlLines) = []"
    by (simp add: seo_title_part checkTitle_step Let_def issue_title_findings)
qed

theorem seo_title_findings_witness:
  "selectTag samplePage (latin1 ''title'') = [] \<and>
   filter (\<lambda>f. issue f = issueTitleMissing) (analyzeSEO samplePage sampleLines) =
     [titleMissingFinding] \<and>
   filter (\<lambda>f. issue f = issueTitleLong) (analyzeSEO samplePage sampleLines) = [] \<and>
   length (text_of (selectTag (titlePage 61) (latin1 ''title''))) = 61 \<and>
   filter (\<lambda>f. issue f = issueTitleLong) (analyzeSEO (titlePage 61) []) = [titleLongFinding] \<and>
   length (text_of (selectTag (titlePage 60) (latin1 ''title''))) = 60 \<and>
   filter (\<lambda>f. issue f = issueTitleLong) (analyzeSEO (titlePage 60) []) = []"
proof -
  have l: "length (text_of (selectTag (titlePage n) (latin1 ''title''))) = n" for n
    by (simp add: titlePage_def selectTag_def selectAll_def text_of_def)
  from seo_title_findings [of samplePage sampleLines] sample_titles
  have a: "filter (\<lambda>f. issue f = issueTitleMissing) (analyzeSEO samplePage sampleLines) =
     [titleMissingFinding] \<and>
   filter (\<lambda>f. issue f = issueTitleLong) (analyzeSEO samplePage sampleLines) = []" by blast
  from seo_title_findings [of "titlePage 61" "[]"] l [of 61]
  have b: "filter (\<lambda>f. issue f = issueTitleLong) (analyzeSEO (titlePage 61) []) =
     [titleLongFinding]" by blast
  from seo_title_findings [of "titlePage 60" "[]"] l [of 60]
  have c: "filter (\<lambda>f. issue f = issueTitleLong) (analyzeSEO (titlePage 60) []) = []" by blast
  from sample_titles a b c l [of 61] l [of 60] show ?thesis by blast
qed

subsection \<open>C4: images without alternative text\<close>

text \<open>
  C4 says that the Accessibility analyser produces exactly one finding, with a non-empty
  hierarchy, for every \<open>img\<close> element without a non-empty \<open>alt\<close>. The loop over the images
  does push these findings, but the loop over all elements that follows calls \<open>contrast\<close>,
  which is \<open>undefined\<close> with the colour package as it is: on a document in which some element
  has both colours the analyser throws and its findings are lost. The theorem runs the
  analyser on the sample page, which has two images without a non-empty \<open>alt\<close> and a
  paragraph with both colours: the first loop leaves the two findings, and the analyser
  ends with the error.
\<close>

theorem alt_findings_lost_on_coloured_page:
  "attribs imgA (latin1 ''alt'') = None \<and>
   attribs imgC (latin1 ''alt'') = Some [] \<and>
   foldl (eachImgAlt samplePage sampleLines) [] (selectTag samplePage (latin1 ''img'')) =
     [altFinding samplePage sampleLines (imgA, [sampleBody, sampleRoot]),
      altFinding samplePage sampleLines (imgC, [sampleBody, sampleRoot])] \<and>
   (parSilver, [sampleBody, sampleRoot]) \<in> set (selectAll samplePage) \<and>
   css samplePage parSilver (latin1 ''background-color'') = Some (latin1 ''white'') \<and>
   css samplePage parSilver (latin1 ''color'') = Some (latin1 ''silver'') \<and>
   analyzeAccessibility None samplePage sampleLines =
     Inl (Error (latin1 ''contrast is not a function''))"
proof -
  have a: "foldl (eachImgAlt samplePage sampleLines) [] (selectTag samplePage (latin1 ''img'')) =
     [altFinding samplePage sampleLines (imgA, [sampleBody, sampleRoot]),
      altFinding samplePage sampleLines (imgC, [sampleBody, sampleRoot])]"
    unfolding alt_report by (simp add: sample_imgs sample_attribs latin1_Nil)
  have b: "(parSilver, [sampleBody, sampleRoot]) \<in> set (selectAll samplePage)"
    by (simp add: sample_all)
  have c: "css samplePage parSilver (latin1 ''background-color'') = Some (latin1 ''white'')"
    "css samplePage parSilver (latin1 ''color'') = Some (latin1 ''silver'')"
    by (simp_all add: sample_css)
  from b c have "\<exists>e \<in> set (selectAll samplePage).
         truthy (css samplePage (fst e) (latin1 ''background-color'')) \<and>
         truthy (css samplePage (fst e) (latin1 ''color''))"
    by (intro bexI [of _ "(parSilver, [sampleBody, sampleRoot])"]) (simp_all add: latin1_Nil)
  then have d: "analyzeAccessibility None samplePage sampleLines =
     Inl (Error (latin1 ''contrast is not a function''))"
    by (simp only: accessibility_undefined if_True)
  from a b c d show ?thesis by (simp add: sample_attribs)
qed

subsection \<open>C5: the contrast threshold\<close>

text \<open>
  C5 says that an element with both colours gets a contrast finding exactly when its ratio
  is below 4.5. The callback does compare the ratio with 4.5, but first it calls
  \<open>contrast\<close>, which is \<open>undefined\<close> with the colour package as it is: the call throws
  \<open>contrast is not a function\<close>, and no contrast finding is ever produced. The theorem runs the
  analyser on the document \<open><p style="color:silver;background-color:white">u</p>\<close>.
\<close>

theorem contrast_check_throws_on_coloured_element:
  "selectAll colouredPage = [(parSilver, [])] \<and>
   css colouredPage parSilver (latin1 ''background-color'') = Some (latin1 ''white'') \<and>
   css colouredPage parSilver (latin1 ''color'') = Some (latin1 ''silver'') \<and>
   eachContrast None colouredPage [sampleHtml parSilver] [] (parSilver, []) =
     Inl (Error (latin1 ''contrast is not a function'')) \<and>
   analyzeAccessibility None colouredPage [sampleHtml parSilver] =
     Inl (Error (latin1 ''contrast is not a function''))"
proof -
  have a: "selectAll colouredPage = [(parSilver, [])]"
    by (simp add: selectAll_def colouredPage_def parSilver_def)
  have b: "css colouredPage parSilver (latin1 ''background-color'') = Some (latin1 ''white'')"
    "css colouredPage parSilver (latin1 ''color'') = Some (latin1 ''silver'')"
    by (simp_all add: sample_css)
  from b have c: "eachContrast None colouredPage [sampleHtml parSilver] [] (parSilver, []) =
     Inl (Error (latin1 ''contrast is not a function''))"
    by (simp add: eachContrast_undefined latin1_Nil)
  from a b have d: "analyzeAccessibility None colouredPage [sampleHtml parSilver] =
     Inl (Error (latin1 ''contrast is not a function''))"
    by (simp add: accessibility_undefined latin1_Nil)
  from a b c d show ?thesis by simp
qed

text \<open>For every document on which the analyser returns, whatever \<open>contrast\<close> is: the
  findings \<open>Imagem sem atributo ALT\<close> of the report are, in document order, one for each
  \<open>img\<close> element whose \<open>alt\<close> is absent or the empty string, each with the hierarchy of its
  image, a non-empty string.\<close>

lemma alt_findings_returned:
  assumes "analyzeAccessibility c dollar htmlLines = Inr report"
  shows "filter (\<lambda>f. issue f = issueMissingAlt) report =
      map (altFinding dollar htmlLines)
        (filter (\<lambda>img. attribs (fst img) (latin1 ''alt'') = None \<or>
                        attribs (fst img) (latin1 ''alt'') = Some [])
           (selectTag dollar (latin1 ''img'')))"
    and "\<forall>img \<in> set (selectTag dollar (latin1 ''img'')).
      hierarchy (altFinding dollar htmlLines img) = Some (getElementHierarchy img) \<and>
      getElementHierarchy img \<noteq> []"
proof -
  have a: "filter (\<lambda>f. issue f = issueMissingAlt) (map (altFinding dollar htmlLines) xs) =
      map (altFinding dollar htmlLines) xs" for xs
    by (rule filter_map_all) (rule issue_altFinding)
  show "filter (\<lambda>f. issue f = issueMissingAlt) report =
      map (altFinding dollar htmlLines)
        (filter (\<lambda>img. attribs (fst img) (latin1 ''alt'') = None \<or>
                        attribs (fst img) (latin1 ''alt'') = Some [])
           (selectTag dollar (latin1 ''img'')))"
  proof (cases c)
    case None
    with assms show ?thesis
      by (auto simp add: accessibility_undefined a split: if_splits)
  next
    case (Some f)
    have b: "filter (\<lambda>f. issue f = issueMissingAlt) (concat (map G xs)) = []"
      if "\<And>x y. y \<in> set (G x) \<Longrightarrow> issue y = issueContrast"
      for G :: "element \<Rightarrow> finding list" and xs
      by (rule filter_concat_none) (use that issues_distinct(2) in auto)
    from assms Some have rr: "report = map (altFinding dollar htmlLines)
        (filter (\<lambda>img. attribs (fst img) (latin1 ''alt'') = None \<or>
                        attribs (fst img) (latin1 ''alt'') = Some [])
           (selectTag dollar (latin1 ''img''))) @
      concat (map (\<lambda>e. case css dollar (fst e) (latin1 ''background-color'') of
          None \<Rightarrow> []
        | Some bgColor \<Rightarrow>
            (case css dollar (fst e) (latin1 ''color'') of
               None \<Rightarrow> []
             | Some textColor \<Rightarrow>
                 if bgColor \<noteq> [] \<and> textColor \<noteq> [] \<and> number_less (f bgColor textColor) (9 / 2)
                 then [contrastFinding dollar htmlLines e (f bgColor textColor)]
                 else [])) (selectAll dollar))"
      by (simp add: accessibility_function)
    show ?thesis
      unfolding rr filter_append a
      by (subst b) (auto simp add: issue_contrastFinding split: option.splits if_splits)
  qed
  show "\<forall>img \<in> set (selectTag dollar (latin1 ''img'')).
      hierarchy (altFinding dollar htmlLines img) = Some (getElementHierarchy img) \<and>
      getElementHierarchy img \<noteq> []"
    by (simp add: altFinding_def Let_def img_hierarchy_nonempty)
qed

text \<open>Were \<open>contrast\<close> bound to a function \<open>f\<close>, the analyser would return, for every
  document, one contrast finding for each element with both colours and a ratio below 4.5,
  as C5 says: the comparison is there, only the call before it fails.\<close>

lemma contrast_findings_with_function:
  assumes "analyzeAccessibility (Some f) dollar htmlLines = Inr report"
  shows "filter (\<lambda>x. issue x = issueContrast) report =
     concat (map (\<lambda>e. case css dollar (fst e) (latin1 ''background-color'') of
          None \<Rightarrow> []
        | Some bgColor \<Rightarrow>
            (case css dollar (fst e) (latin1 ''color'') of
               None \<Rightarrow> []
             | Some textColor \<Rightarrow>
                 if bgColor \<noteq> [] \<and> textColor \<noteq> [] \<and> number_less (f bgColor textColor) (9 / 2)
                 then [contrastFinding dollar htmlLines e (f bgColor textColor)]
                 else [])) (selectAll dollar))"
proof -
  have a: "filter (\<lambda>x. issue x = issueContrast) (map (altFinding dollar htmlLines) xs) = []" for xs
    by (rule filter_map_none) (simp add: issue_altFinding issues_distinct)
  have b: "filter (\<lambda>x. issue x = issueContrast) (concat (map G xs)) = concat (map G xs)"
    if "\<And>x y. y \<in> set (G x) \<Longrightarrow> issue y = issueContrast"
    for G :: "element \<Rightarrow> finding list" and xs
    by (rule filter_concat_all) (use that in auto)
  from assms have rr: "report = map (altFinding dollar htmlLines)
        (filter (\<lambda>img. attribs (fst img) (latin1 ''alt'') = None \<or>
                        attribs (fst img) (latin1 ''alt'') = Some [])
           (selectTag dollar (latin1 ''img''))) @
      concat (map (\<lambda>e. case css dollar (fst e) (latin1 ''background-color'') of
          None \<Rightarrow> []
        | Some bgColor \<Rightarrow>
            (case css dollar (fst e) (latin1 ''color'') of
               None \<Rightarrow> []
             | Some textColor \<Rightarrow>
                 if bgColor \<noteq> [] \<and> textColor \<noteq> [] \<and> number_less (f bgColor textColor) (9 / 2)
                 then [contrastFinding dollar htmlLines e (f bgColor textColor)]
                 else [])) (selectAll dollar))"
    by (simp add: accessibility_function)
  show ?thesis
    unfolding rr filter_append a append_Nil
    by (rule b) (auto simp add: issue_contrastFinding split: option.splits if_splits)
qed

lemma sample_with_function:
  "analyzeAccessibility (Some sampleContrast) samplePage sampleLines =
     Inr [altFinding samplePage sampleLines (imgA, [sampleBody, sampleRoot]),
          altFinding samplePage sampleLines (imgC, [sampleBody, sampleRoot]),
          contrastFinding samplePage sampleLines (parSilver, [sampleBody, sampleRoot])
            (Finite (449 / 100))]"
  "sampleContrast (latin1 ''white'') (latin1 ''gray'') = Finite (9 / 2)"
  by (simp_all add: accessibility_function sample_imgs sample_all sample_attribs sample_css
        sampleContrast_def latin1_inj latin1_Nil)

text \<open>For every document: with \<open>contrast\<close> undefined, a report that the analyser returns
  holds the findings of the images and nothing else.\<close>

lemma no_contrast_finding_returned:
  assumes "analyzeAccessibility None dollar htmlLines = Inr report"
  shows "report = map (altFinding dollar htmlLines)
      (filter (\<lambda>img. attribs (fst img) (latin1 ''alt'') = None \<or>
                      attribs (fst img) (latin1 ''alt'') = Some [])
         (selectTag dollar (latin1 ''img'')))"
    and "filter (\<lambda>f. issue f = issueContrast) report = []"
proof -
  from assms show r: "report = map (altFinding dollar htmlLines)
      (filter (\<lambda>img. attribs (fst img) (latin1 ''alt'') = None \<or>
                      attribs (fst img) (latin1 ''alt'') = Some [])
         (selectTag dollar (latin1 ''img'')))"
    by (simp add: accessibility_undefined split: if_splits)
  show "filter (\<lambda>f. issue f = issueContrast) report = []"
    unfolding r by (rule filter_map_none) (simp add: issue_altFinding issues_distinct)
qed

subsection \<open>C6: blocking scripts\<close>

text \<open>
  C6 says that every \<open>script\<close> element that has a \<open>src\<close> attribute and lacks both \<open>async\<close>
  and \<open>defer\<close> gets exactly one finding. The callback tests \<open>src && !isAsync && !isDefer\<close>,
  and an empty \<open>src\<close> is falsy: the document \<open><script src=""></script>\<close> has such an
  element and gets no finding.
\<close>

theorem blocking_script_empty_src_counterexample:
  "attribs emptySrcScript (latin1 ''src'') = Some [] \<and>
   attribs emptySrcScript (latin1 ''async'') = None \<and>
   attribs emptySrcScript (latin1 ''defer'') = None \<and>
   selectTag emptySrcPage (latin1 ''script'') = [(emptySrcScript, [])] \<and>
   fst (analyzePerformance emptySrcPage [sampleHtml emptySrcScript]) = []"
  by (simp add: analyzePerformance_def eachScript_def Let_def selectTag_def selectAll_def
        emptySrcPage_def emptySrcScript_def latin1_inj)

text \<open>
  C6, amended: the list \<open>analyzePerformance\<close> returns is, in document order, one finding for
  each \<open>script\<close> element that has a non-empty \<open>src\<close> attribute and neither an \<open>async\<close> nor a
  \<open>defer\<close> attribute; a script with either attribute, with no \<open>src\<close> or with an empty \<open>src\<close>
  gets none.
\<close>

theorem blocking_script_findings: 
  "fst (analyzePerformance dollar htmlLines) =
   map (\<lambda>s. scriptFinding dollar htmlLines s (attribs (fst s) (latin1 ''src'')))
     (filter (\<lambda>s. (\<exists>src. attribs (fst s) (latin1 ''src'') = Some src \<and> src \<noteq> []) \<and>
                  attribs (fst s) (latin1 ''async'') = None \<and>
                  attribs (fst s) (latin1 ''defer'') = None)
        (selectTag dollar (latin1 ''script'')))"
  by (simp add: analyzePerformance_def Let_def scripts_report)

theorem blocking_script_findings_witness:
  "fst (analyzePerformance samplePage sampleLines) =
     [scriptFinding samplePage sampleLines (scriptA, [sampleHead, sampleRoot])
        (Some (latin1 ''a.js''))] \<and>
   attribs scriptB (latin1 ''defer'') = Some [] \<and>
   attribs scriptInline (latin1 ''src'') = None"
proof -
  from blocking_script_findings [of samplePage sampleLines]
  have "fst (analyzePerformance samplePage sampleLines) =
     [scriptFinding samplePage sampleLines (scriptA, [sampleHead, sampleRoot])
        (Some (latin1 ''a.js''))]"
    by (simp add: sample_scripts sample_attribs latin1_Nil)
  moreover have "attribs scriptB (latin1 ''defer'') = Some [] \<and>
    attribs scriptInline (latin1 ''src'') = None"
    by (simp add: sample_attribs)
  ultimately show ?thesis by blast
qed

subsection \<open>C7: the location of an element\<close>

text \<open>
  C7: the location found by searching the lines is \<open>Linha\<close> and the 1-based index of the
  first line that contains the serialised element; when no line contains it, \<open>findIndex\<close>
  gives \<open>-1\<close> and the location is \<open>Linha 0\<close>. Each finding of the script, image, contrast and
  link checks takes its location this way from the serialisation of its own element: the
  findings are, one for one and in order, those of the flagged elements, each with the
  resource of its element (the \<open>src\<close>, the \<open>href\<close>, the serialisation) and the location of
  the serialisation of that element. The finding of a resumed image check has the location
  of its image.
\<close>

theorem line_location_first_match:
  "((\<exists>i<length htmlLines. sublist tag (htmlLines ! i)) \<longrightarrow>
      (\<exists>i<length htmlLines. sublist tag (htmlLines ! i) \<and>
          (\<forall>j<i. \<not> sublist tag (htmlLines ! j)) \<and>
          lineLocation htmlLines tag = latin1 ''Linha '' @ toString (int i + 1))) \<and>
   ((\<forall>i<length htmlLines. \<not> sublist tag (htmlLines ! i)) \<longrightarrow>
      findIndex (\<lambda>line. includes_str line tag) htmlLines = - 1 \<and>
      lineLocation htmlLines tag = latin1 ''Linha 0'') \<and>
   map (\<lambda>f. (resource f, location f)) (fst (analyzePerformance dollar htmlLines)) =
     map (\<lambda>s. (attribs (fst s) (latin1 ''src''), lineLocation htmlLines (html dollar (fst s))))
       (filter (\<lambda>s. (\<exists>src. attribs (fst s) (latin1 ''src'') = Some src \<and> src \<noteq> []) \<and>
                    attribs (fst s) (latin1 ''async'') = None \<and>
                    attribs (fst s) (latin1 ''defer'') = None)
          (selectTag dollar (latin1 ''script''))) \<and>
   (\<forall>report. analyzeAccessibility c dollar htmlLines = Inr report \<longrightarrow>
      map (\<lambda>f. (resource f, location f)) report =
        map (\<lambda>img. (attribs (fst img) (latin1 ''src''),
                     lineLocation htmlLines (html dollar (fst img))))
          (filter (\<lambda>img. attribs (fst img) (latin1 ''alt'') = None \<or>
                          attribs (fst img) (latin1 ''alt'') = Some [])
             (selectTag dollar (latin1 ''img''))) @
        map (\<lambda>e. (Some (html dollar (fst e)), lineLocation htmlLines (html dollar (fst e))))
          (filter (\<lambda>e. \<exists>bgColor textColor.
                          css dollar (fst e) (latin1 ''background-color'') = Some bgColor \<and>
                          css dollar (fst e) (latin1 ''color'') = Some textColor \<and>
                          (\<exists>f. c = Some f \<and> bgColor \<noteq> [] \<and> textColor \<noteq> [] \<and>
                               number_less (f bgColor textColor) (9 / 2)))
             (selectAll dollar))) \<and>
   map (\<lambda>f. (resource f, location f)) (analyzeBrokenLinks dollar htmlLines) =
     map (\<lambda>a. (attribs (fst a) (latin1 ''href''), lineLocation htmlLines (html dollar (fst a))))
       (filter (\<lambda>a. \<exists>href. attribs (fst a) (latin1 ''href'') = Some href \<and> href \<noteq> [] \<and>
                            startsWith href (latin1 ''#''))
          (selectTag dollar (latin1 ''a''))) \<and>
   location (imageFinding dollar htmlLines img src n) =
     lineLocation htmlLines (html dollar (fst img)) \<and>
   resource (imageFinding dollar htmlLines img src n) = Some src"
proof (intro conjI impI allI)
  show "location (imageFinding dollar htmlLines img src n) =
     lineLocation htmlLines (html dollar (fst img))"
    by (simp add: imageFinding_def Let_def)
  show "resource (imageFinding dollar htmlLines img src n) = Some src"
    by (simp add: imageFinding_def Let_def)
next
  assume "\<exists>i<length htmlLines. sublist tag (htmlLines ! i)"
  then have "\<exists>i<length htmlLines. includes_str (htmlLines ! i) tag"
    by (simp add: includes_str_sublist)
  from findIndex_found [of htmlLines "\<lambda>line. includes_str line tag", OF this]
  show "\<exists>i<length htmlLines. sublist tag (htmlLines ! i) \<and>
          (\<forall>j<i. \<not> sublist tag (htmlLines ! j)) \<and>
          lineLocation htmlLines tag = latin1 ''Linha '' @ toString (int i + 1)"
    by (auto simp add: includes_str_sublist lineLocation_def Let_def)
next
  assume "\<forall>i<length htmlLines. \<not> sublist tag (htmlLines ! i)"
  then have "\<forall>i<length htmlLines. \<not> includes_str (htmlLines ! i) tag"
    by (simp add: includes_str_sublist)
  from findIndex_none [of htmlLines "\<lambda>line. includes_str line tag", OF this]
  have a: "findIndex (\<lambda>line. includes_str line tag) htmlLines = - 1" .
  then show "findIndex (\<lambda>line. includes_str line tag) htmlLines = - 1" .
  from a show "lineLocation htmlLines tag = latin1 ''Linha 0''"
    by (simp add: lineLocation_def Let_def toString_0 latin1_append [symmetric])
next
  show "map (\<lambda>f. (resource f, location f)) (fst (analyzePerformance dollar htmlLines)) =
     map (\<lambda>s. (attribs (fst s) (latin1 ''src''), lineLocation htmlLines (html dollar (fst s))))
       (filter (\<lambda>s. (\<exists>src. attribs (fst s) (latin1 ''src'') = Some src \<and> src \<noteq> []) \<and>
                    attribs (fst s) (latin1 ''async'') = None \<and>
                    attribs (fst s) (latin1 ''defer'') = None)
          (selectTag dollar (latin1 ''script'')))"
    by (simp add: analyzePerformance_def Let_def scripts_report scriptFinding_def comp_def)
next
  show "map (\<lambda>f. (resource f, location f)) (analyzeBrokenLinks dollar htmlLines) =
     map (\<lambda>a. (attribs (fst a) (latin1 ''href''), lineLocation htmlLines (html dollar (fst a))))
       (filter (\<lambda>a. \<exists>href. attribs (fst a) (latin1 ''href'') = Some href \<and> href \<noteq> [] \<and>
                            startsWith href (latin1 ''#''))
          (selectTag dollar (latin1 ''a'')))"
  proof -
    have "map (\<lambda>f. (resource f, location f))
        (concat (map (\<lambda>link. case attribs (fst link) (latin1 ''href'') of
            None \<Rightarrow> []
          | Some href \<Rightarrow>
              if href \<noteq> [] \<and> startsWith href (latin1 ''#'')
              then [brokenLinkFinding dollar htmlLines link href] else []) xs)) =
      map (\<lambda>a. (attribs (fst a) (latin1 ''href''), lineLocation htmlLines (html dollar (fst a))))
        (filter (\<lambda>a. \<exists>href. attribs (fst a) (latin1 ''href'') = Some href \<and> href \<noteq> [] \<and>
                            startsWith href (latin1 ''#'')) xs)" for xs
      by (induction xs) (auto simp add: brokenLinkFinding_def Let_def split: option.splits)
    then show ?thesis unfolding links_report .
  qed
next
  fix report
  assume r: "analyzeAccessibility c dollar htmlLines = Inr report"
  let ?alts = "filter (\<lambda>img. attribs (fst img) (latin1 ''alt'') = None \<or>
                          attribs (fst img) (latin1 ''alt'') = Some [])
             (selectTag dollar (latin1 ''img''))"
  have alt: "map (\<lambda>f. (resource f, location f)) (map (altFinding dollar htmlLines) xs) =
      map (\<lambda>img. (attribs (fst img) (latin1 ''src''),
                     lineLocation htmlLines (html dollar (fst img)))) xs" for xs
    by (simp add: altFinding_def Let_def comp_def)
  show "map (\<lambda>f. (resource f, location f)) report =
        map (\<lambda>img. (attribs (fst img) (latin1 ''src''),
                     lineLocation htmlLines (html dollar (fst img)))) ?alts @
        map (\<lambda>e. (Some (html dollar (fst e)), lineLocation htmlLines (html dollar (fst e))))
          (filter (\<lambda>e. \<exists>bgColor textColor.
                          css dollar (fst e) (latin1 ''background-color'') = Some bgColor \<and>
                          css dollar (fst e) (latin1 ''color'') = Some textColor \<and>
                          (\<exists>f. c = Some f \<and> bgColor \<noteq> [] \<and> textColor \<noteq> [] \<and>
                               number_less (f bgColor textColor) (9 / 2)))
             (selectAll dollar))"
  proof (cases c)
    case None
    with r have rr: "report = map (altFinding dollar htmlLines) ?alts"
      by (simp add: accessibility_undefined split: if_splits)
    from None have "filter (\<lambda>e. \<exists>bgColor textColor.
                          css dollar (fst e) (latin1 ''background-color'') = Some bgColor \<and>
                          css dollar (fst e) (latin1 ''color'') = Some textColor \<and>
                          (\<exists>f. c = Some f \<and> bgColor \<noteq> [] \<and> textColor \<noteq> [] \<and>
                               number_less (f bgColor textColor) (9 / 2)))
             (selectAll dollar) = []"
      by simp
    then show ?thesis unfolding rr alt by simp
  next
    case (Some f)
    have k: "(\<lambda>f. (resource f, location f)) (contrastFinding dollar htmlLines e (f b t)) =
        (Some (html dollar (fst e)), lineLocation htmlLines (html dollar (fst e)))" for e b t
      by (simp add: contrastFinding_def Let_def)
    from r Some have "report = map (altFinding dollar htmlLines) ?alts @
      concat (map (\<lambda>e. case css dollar (fst e) (latin1 ''background-color'') of
          None \<Rightarrow> []
        | Some bgColor \<Rightarrow>
            (case css dollar (fst e) (latin1 ''color'') of
               None \<Rightarrow> []
             | Some textColor \<Rightarrow>
                 if bgColor \<noteq> [] \<and> textColor \<noteq> [] \<and> number_less (f bgColor textColor) (9 / 2)
                 then [contrastFinding dollar htmlLines e (f bgColor textColor)]
                 else [])) (selectAll dollar))"
      by (simp add: accessibility_function)
    with Some show ?thesis
      by (simp only: map_append alt
            map_concat_case [of "\<lambda>f. (resource f, location f)"
              "\<lambda>e b t. contrastFinding dollar htmlLines e (f b t)"
              "\<lambda>e. (Some (html dollar (fst e)), lineLocation htmlLines (html dollar (fst e)))",
              OF k])
         simp
  qed
qed

theorem line_location_first_match_witness:
  "sublist (sampleHtml scriptA) (sampleLines ! 1) \<and>
   \<not> sublist (sampleHtml scriptA) (sampleLines ! 0) \<and>
   lineLocation sampleLines (sampleHtml scriptA) = latin1 ''Linha 2'' \<and>
   lineLocation sampleLines (sampleHtml linkTop) = latin1 ''Linha 0'' \<and>
   map (\<lambda>f. (resource f, location f)) (fst (analyzePerformance twoScriptsPage twoScriptsLines)) =
     [(Some (latin1 ''a.js''), latin1 ''Linha 2''), (Some (latin1 ''c.js''), latin1 ''Linha 1'')] \<and>
   analyzeAccessibility None plainPage sampleLines =
     Inr [altFinding plainPage sampleLines (imgA, [])] \<and>
   map (\<lambda>f. (resource f, location f)) [altFinding plainPage sampleLines (imgA, [])] =
     [(Some (latin1 ''a.png''), latin1 ''Linha 3'')]"
proof -
  have len: "length sampleLines = 3"
    by (simp add: sampleLines_def)
  have a1: "sublist (sampleHtml scriptA) (sampleLines ! 1)"
    by (simp add: sample_lines sample_tags includes_str_sublist [symmetric] includes_str_latin1)
  have a0: "\<not> sublist (sampleHtml scriptA) (sampleLines ! 0)"
    by (simp add: sample_lines sample_tags includes_str_sublist [symmetric] includes_str_latin1)
  have none: "\<forall>i<length sampleLines. \<not> sublist (sampleHtml linkTop) (sampleLines ! i)"
    by (simp add: sample_lines sample_tags includes_str_sublist [symmetric] includes_str_latin1
          less_Suc_eq numeral_3_eq_3)
  from a1 len have "\<exists>i<length sampleLines. sublist (sampleHtml scriptA) (sampleLines ! i)"
    by (intro exI [of _ 1]) simp
  with line_location_first_match [where htmlLines = sampleLines and tag = "sampleHtml scriptA"
    and dollar = samplePage and c = None]
  obtain i where i: "sublist (sampleHtml scriptA) (sampleLines ! i)"
    "\<forall>j<i. \<not> sublist (sampleHtml scriptA) (sampleLines ! j)"
    "lineLocation sampleLines (sampleHtml scriptA) = latin1 ''Linha '' @ toString (int i + 1)"
    by blast
  from i(2) a1 have "\<not> 1 < i" by blast
  moreover from i(1) a0 have "i \<noteq> 0" by (intro notI) simp
  ultimately have "i = 1" by simp
  with i(3) have b: "lineLocation sampleLines (sampleHtml scriptA) = latin1 ''Linha 2''"
    by (simp add: toString_small latin1_app)
  from line_location_first_match [where htmlLines = sampleLines and tag = "sampleHtml linkTop"
    and dollar = samplePage and c = None] none
  have c: "lineLocation sampleLines (sampleHtml linkTop) = latin1 ''Linha 0''" by blast
  from line_location_first_match [where htmlLines = twoScriptsLines and dollar = twoScriptsPage]
  have "map (\<lambda>f. (resource f, location f))
      (fst (analyzePerformance twoScriptsPage twoScriptsLines)) =
     map (\<lambda>s. (attribs (fst s) (latin1 ''src''),
                lineLocation twoScriptsLines (html twoScriptsPage (fst s))))
       (filter (\<lambda>s. (\<exists>src. attribs (fst s) (latin1 ''src'') = Some src \<and> src \<noteq> []) \<and>
                    attribs (fst s) (latin1 ''async'') = None \<and>
                    attribs (fst s) (latin1 ''defer'') = None)
          (selectTag twoScriptsPage (latin1 ''script'')))" by blast
  then have d: "map (\<lambda>f. (resource f, location f))
      (fst (analyzePerformance twoScriptsPage twoScriptsLines)) =
     [(Some (latin1 ''a.js''), latin1 ''Linha 2''), (Some (latin1 ''c.js''), latin1 ''Linha 1'')]"
    by (simp add: two_scripts sample_attribs sample_locations latin1_Nil)
  note e = plain_accessibility
  from line_location_first_match [where htmlLines = sampleLines and dollar = plainPage
    and c = None] e
  have "map (\<lambda>f. (resource f, location f)) [altFinding plainPage sampleLines (imgA, [])] =
        map (\<lambda>img. (attribs (fst img) (latin1 ''src''),
                     lineLocation sampleLines (html plainPage (fst img))))
          (filter (\<lambda>img. attribs (fst img) (latin1 ''alt'') = None \<or>
                          attribs (fst img) (latin1 ''alt'') = Some [])
             (selectTag plainPage (latin1 ''img''))) @
        map (\<lambda>e. (Some (html plainPage (fst e)), lineLocation sampleLines (html plainPage (fst e))))
          (filter (\<lambda>e. \<exists>bgColor textColor.
                          css plainPage (fst e) (latin1 ''background-color'') = Some bgColor \<and>
                          css plainPage (fst e) (latin1 ''color'') = Some textColor \<and>
                          (\<exists>f. None = Some f \<and> bgColor \<noteq> [] \<and> textColor \<noteq> [] \<and>
                               number_less (f bgColor textColor) (9 / 2)))
             (selectAll plainPage))" by blast
  then have f: "map (\<lambda>f. (resource f, location f)) [altFinding plainPage sampleLines (imgA, [])] =
     [(Some (latin1 ''a.png''), latin1 ''Linha 3'')]"
    by (simp add: plain_page sample_attribs sample_locations)
  from a1 a0 b c d e f show ?thesis by blast
qed

subsection \<open>C8: a failed fetch or parse\<close>

text \<open>
  C8: when the GET fails, or the parser fails on the fetched text, \<open>analyzeSite\<close> changes
  nothing but the console, to which it adds one error line with the error's message; the
  files are as they were, so no report, whole or partial, is written.
\<close>

theorem fetch_or_parse_failure_no_report:
  "axios_get ext url = Inl e \<or>
     (\<exists>data. axios_get ext url = Inr data \<and> cheerio_load ext data = Inl e) \<Longrightarrow>
   analyzeSite ext url w =
     w\<lparr>console := console w @
          [[0x274C] @ latin1 '' '' @ latin1 ''Erro ao analisar o site: '' @ message e]\<rparr> \<and>
   files (analyzeSite ext url w) = files w"
  by (auto simp add: analyzeSite_def catchError_def logError_def)

theorem fetch_or_parse_failure_no_report_witness:
  "axios_get offline SITE_URL = Inl (Error (latin1 ''getaddrinfo ENOTFOUND'')) \<and>
   files (analyzeSite offline SITE_URL emptyWorld) = files emptyWorld \<and>
   console (analyzeSite offline SITE_URL emptyWorld) =
     [[0x274C] @ latin1 '' Erro ao analisar o site: getaddrinfo ENOTFOUND''] \<and>
   axios_get unparsable SITE_URL = Inr (TextBody (latin1 ''<html>'')) \<and>
   cheerio_load unparsable (TextBody (latin1 ''<html>'')) =
     Inl (Error (latin1 ''not a document'')) \<and>
   files (analyzeSite unparsable SITE_URL emptyWorld) = files emptyWorld \<and>
   console (analyzeSite unparsable SITE_URL emptyWorld) =
     [[0x274C] @ latin1 '' Erro ao analisar o site: not a document'']"
proof -
  have a: "axios_get offline SITE_URL = Inl (Error (latin1 ''getaddrinfo ENOTFOUND''))"
    by (simp add: offline_def)
  have b: "axios_get unparsable SITE_URL = Inr (TextBody (latin1 ''<html>''))"
    "cheerio_load unparsable (TextBody (latin1 ''<html>'')) =
       Inl (Error (latin1 ''not a document''))"
    by (simp_all add: unparsable_def)
  from fetch_or_parse_failure_no_report
    [of offline SITE_URL "Error (latin1 ''getaddrinfo ENOTFOUND'')" emptyWorld] a
  have c: "files (analyzeSite offline SITE_URL emptyWorld) = files emptyWorld \<and>
    console (analyzeSite offline SITE_URL emptyWorld) =
     [[0x274C] @ latin1 '' Erro ao analisar o site: getaddrinfo ENOTFOUND'']"
    by (simp add: emptyWorld_def latin1_app)
  from fetch_or_parse_failure_no_report
    [of unparsable SITE_URL "Error (latin1 ''not a document'')" emptyWorld] b
  have d: "files (analyzeSite unparsable SITE_URL emptyWorld) = files emptyWorld \<and>
    console (analyzeSite unparsable SITE_URL emptyWorld) =
     [[0x274C] @ latin1 '' Erro ao analisar o site: not a document'']"
    by (simp add: emptyWorld_def latin1_app)
  from a b c d show ?thesis by blast
qed

subsection \<open>C9: the fields of a finding\<close>

text \<open>
  C9: every finding of the six analysers, and every image finding a resumed image check
  pushes, has a non-empty \<open>type\<close>, \<open>issue\<close>, \<open>solution\<close> and \<open>location\<close>; and every check
  and every loop of the analysers only appends: the report it is given is a prefix of the
  report it leaves, so no finding is changed or removed once it is in a report. For the
  Accessibility analyser, which can throw, this is said of the findings its first loop
  pushes, of the report it returns, and of the report its second loop leaves when it does
  not throw.
\<close>

theorem findings_fields_nonempty_append_only:
  "(\<forall>f \<in> set (analyzeSEO dollar htmlLines) \<union>
          set (fst (analyzePerformance dollar htmlLines)) \<union>
          set (fst (eachImageResume dollar htmlLines check response ([], out))) \<union>
          set (foldl (eachImgAlt dollar htmlLines) [] elements) \<union>
          set (analyzeBrokenLinks dollar htmlLines) \<union>
          set (analyzeSecurity dollar htmlLines) \<union>
          set (analyzeMobile dollar htmlLines).
      type f \<noteq> [] \<and> issue f \<noteq> [] \<and> solution f \<noteq> [] \<and> location f \<noteq> []) \<and>
   (\<forall>report'. analyzeAccessibility c dollar htmlLines = Inr report' \<longrightarrow>
      (\<forall>f \<in> set report'.
         type f \<noteq> [] \<and> issue f \<noteq> [] \<and> solution f \<noteq> [] \<and> location f \<noteq> [])) \<and>
   prefix report (checkTitle dollar report) \<and>
   prefix report (checkDescription dollar report) \<and>
   prefix report (checkHeadings dollar report) \<and>
   prefix report (foldl (eachScript dollar htmlLines) report elements) \<and>
   prefix report (fst (eachImageResume dollar htmlLines check response (report, out))) \<and>
   prefix report (foldl (eachImgAlt dollar htmlLines) report elements) \<and>
   (\<forall>report'. each (eachContrast c dollar htmlLines) report elements = Inr report' \<longrightarrow>
      prefix report report' \<and>
      (\<forall>f \<in> set report'. f \<in> set report \<or>
         type f \<noteq> [] \<and> issue f \<noteq> [] \<and> solution f \<noteq> [] \<and> location f \<noteq> [])) \<and>
   prefix report (foldl (eachLink dollar htmlLines) report elements)"
proof (intro conjI allI impI)
  show "\<forall>f \<in> set (analyzeSEO dollar htmlLines) \<union>
          set (fst (analyzePerformance dollar htmlLines)) \<union>
          set (fst (eachImageResume dollar htmlLines check response ([], out))) \<union>
          set (foldl (eachImgAlt dollar htmlLines) [] elements) \<union>
          set (analyzeBrokenLinks dollar htmlLines) \<union>
          set (analyzeSecurity dollar htmlLines) \<union>
          set (analyzeMobile dollar htmlLines).
      type f \<noteq> [] \<and> issue f \<noteq> [] \<and> solution f \<noteq> [] \<and> location f \<noteq> []"
    using fields_analyzeSEO [of dollar htmlLines] fields_performance [of dollar htmlLines]
      fields_resume [of dollar htmlLines check response out]
      fields_alt_loop [of dollar htmlLines elements] fields_links [of dollar htmlLines]
      fields_security [of dollar htmlLines] fields_mobile [of dollar htmlLines]
    by (simp only: ball_Un)
  show "prefix report (checkTitle dollar report)"
    using fields_checkTitle [of dollar report] by auto
  show "prefix report (checkDescription dollar report)"
    using fields_checkDescription [of dollar report] by auto
  show "prefix report (checkHeadings dollar report)"
    using fields_checkHeadings [of dollar report] by auto
  show "prefix report (foldl (eachScript dollar htmlLines) report elements)"
    by (rule foldl_step_prefix) (rule eachScript_step)
  show "prefix report (fst (eachImageResume dollar htmlLines check response (report, out)))"
    using eachImageResume_step [of dollar htmlLines check response report out] by auto
  show "prefix report (foldl (eachImgAlt dollar htmlLines) report elements)"
    by (rule foldl_step_prefix) (rule eachImgAlt_step)
  show "prefix report (foldl (eachLink dollar htmlLines) report elements)"
    by (rule foldl_step_prefix) (rule eachLink_step)
next
  fix report'
  assume "analyzeAccessibility c dollar htmlLines = Inr report'"
  then show "\<forall>f \<in> set report'.
      type f \<noteq> [] \<and> issue f \<noteq> [] \<and> solution f \<noteq> [] \<and> location f \<noteq> []"
    by (rule fields_accessibility)
next
  fix report'
  assume a: "each (eachContrast c dollar htmlLines) report elements = Inr report'"
  from eachContrast_loop [OF a] show "prefix report report'" by auto
  from eachContrast_loop [OF a] show "\<forall>f \<in> set report'. f \<in> set report \<or>
      type f \<noteq> [] \<and> issue f \<noteq> [] \<and> solution f \<noteq> [] \<and> location f \<noteq> []" by auto
qed

theorem findings_fields_nonempty_append_only_witness:
  "analyzeBrokenLinks samplePage sampleLines =
     [brokenLinkFinding samplePage sampleLines (linkTop, [sampleBody, sampleRoot]) (latin1 ''#top'')] \<and>
   type (brokenLinkFinding samplePage sampleLines (linkTop, [sampleBody, sampleRoot])
     (latin1 ''#top'')) \<noteq> [] \<and>
   issue (brokenLinkFinding samplePage sampleLines (linkTop, [sampleBody, sampleRoot])
     (latin1 ''#top'')) \<noteq> [] \<and>
   solution (brokenLinkFinding samplePage sampleLines (linkTop, [sampleBody, sampleRoot])
     (latin1 ''#top'')) \<noteq> [] \<and>
   location (brokenLinkFinding samplePage sampleLines (linkTop, [sampleBody, sampleRoot])
     (latin1 ''#top'')) \<noteq> [] \<and>
   checkTitle samplePage [mobileFinding] = [mobileFinding, titleMissingFinding] \<and>
   prefix [mobileFinding] (checkTitle samplePage [mobileFinding]) \<and>
   analyzeAccessibility None plainPage sampleLines =
     Inr [altFinding plainPage sampleLines (imgA, [])] \<and>
   type (altFinding plainPage sampleLines (imgA, [])) \<noteq> [] \<and>
   issue (altFinding plainPage sampleLines (imgA, [])) \<noteq> [] \<and>
   solution (altFinding plainPage sampleLines (imgA, [])) \<noteq> [] \<and>
   location (altFinding plainPage sampleLines (imgA, [])) \<noteq> [] \<and>
   each (eachContrast None plainPage sampleLines) [mobileFinding] (selectAll plainPage) =
     Inr [mobileFinding]"
proof -
  let ?f = "brokenLinkFinding samplePage sampleLines (linkTop, [sampleBody, sampleRoot])
    (latin1 ''#top'')"
  let ?g = "altFinding plainPage sampleLines (imgA, [])"
  note t = findings_fields_nonempty_append_only [where dollar = samplePage
    and htmlLines = sampleLines and report = "[mobileFinding]" and c = None
    and check = "((imgA, [sampleBody, sampleRoot]), latin1 ''a.png'')" and response = Rejected
    and out = "[]" and elements = "[]"]
  note u = findings_fields_nonempty_append_only [where dollar = plainPage
    and htmlLines = sampleLines and report = "[mobileFinding]" and c = None
    and check = "((imgA, []), latin1 ''a.png'')" and response = Rejected
    and out = "[]" and elements = "selectAll plainPage"]
  have a: "analyzeBrokenLinks samplePage sampleLines = [?f]"
    by (simp add: links_report sample_links sample_attribs latin1_Nil startsWith_latin1)
  then have "?f \<in> set (analyzeBrokenLinks samplePage sampleLines)" by simp
  with t have b: "type ?f \<noteq> [] \<and> issue ?f \<noteq> [] \<and> solution ?f \<noteq> [] \<and> location ?f \<noteq> []"
    by blast
  have c: "checkTitle samplePage [mobileFinding] = [mobileFinding, titleMissingFinding]"
    by (simp add: checkTitle_step sample_titles text_of_Nil)
  from t have d: "prefix [mobileFinding] (checkTitle samplePage [mobileFinding])" by blast
  note e = plain_accessibility
  from u e have "\<forall>f \<in> set [?g].
      type f \<noteq> [] \<and> issue f \<noteq> [] \<and> solution f \<noteq> [] \<and> location f \<noteq> []" by blast
  then have f: "type ?g \<noteq> [] \<and> issue ?g \<noteq> [] \<and> solution ?g \<noteq> [] \<and> location ?g \<noteq> []"
    by simp
  have g: "each (eachContrast None plainPage sampleLines) [mobileFinding] (selectAll plainPage) =
     Inr [mobileFinding]"
    by (simp only: each_guard [of "eachContrast None plainPage sampleLines",
          OF eachContrast_undefined])
       (simp add: plain_page sample_css)
  from a b c d e f g show ?thesis by blast
qed

subsection \<open>C10: the security check\<close>

text \<open>
  C10: what \<open>analyzeSecurity\<close> returns does not depend on the document or on the lines: it is
  the same for any two of them, the empty list when \<open>SITE_URL\<close> starts with \<open>https://\<close> and
  the one security finding otherwise.
\<close>

theorem security_independent_of_document:
  "analyzeSecurity dollar htmlLines = analyzeSecurity dollar' htmlLines' \<and>
   analyzeSecurity dollar htmlLines =
     (if startsWith SITE_URL (latin1 ''https://'') then [] else [securityFinding])"
  by (simp add: analyzeSecurity_def Let_def push_def)

theorem security_independent_of_document_witness:
  "analyzeSecurity samplePage sampleLines = analyzeSecurity emptySrcPage [] \<and>
   \<not> startsWith SITE_URL (latin1 ''https://'') \<and>
   analyzeSecurity samplePage sampleLines = [securityFinding]"
proof -
  have a: "\<not> startsWith SITE_URL (latin1 ''https://'')"
    by (simp add: SITE_URL_def startsWith_latin1)
  note t = security_independent_of_document [of samplePage sampleLines emptySrcPage "[]"]
  from t have b: "analyzeSecurity samplePage sampleLines = analyzeSecurity emptySrcPage []"
    by blast
  from t have "analyzeSecurity samplePage sampleLines =
      (if startsWith SITE_URL (latin1 ''https://'') then [] else [securityFinding])"
    by blast
  with a have c: "analyzeSecurity samplePage sampleLines = [securityFinding]"
    by simp
  from a b c show ?thesis by blast
qed

end
